theory Spec2Isabelle
  imports Main "HOL-Library.Word"
begin

section \<open>The webhook receiver of \<^verbatim>\<open>src/routes/webhook.js\<close>\<close>

text \<open>
  The file registers one handler, \<^verbatim>\<open>router.post('/', wrap(function* (request, response, next) ...))\<close>.
  The handler is modelled as a function from its inputs to a run: the list of effects it
  performs, in program order (log lines, the call of \<^verbatim>\<open>crawlerService.queue\<close>, the
  settling of the promise that call returns, the HTTP response), and the way the body of
  the generator ends (it returns, it throws, or it stays suspended at \<^verbatim>\<open>yield\<close>).

  JavaScript strings are modelled as \<^typ>\<open>string\<close>, sequences of code units below 256.
  That is what Node gives for header values, which are decoded as Latin-1.
\<close>

subsection \<open>JavaScript values\<close>

text \<open>
  What \<^verbatim>\<open>JSON.parse\<close> returns. The representation of numbers is left open (type \<open>'n\<close>):
  the handler only tests a number for truthiness and converts it to a string, and both
  observations are parameters. The list of an object holds its own properties; a key is
  looked up with \<^const>\<open>map_of\<close>.
\<close>

datatype 'n json =
    JNull
  | JBool bool
  | JNum 'n
  | JStr string
  | JArr "'n json list"
  | JObj "(string \<times> 'n json) list"

text \<open>The exceptions that the handler's body can end with, named after their cause.\<close>

datatype js_error =
    BufferLengthMismatch      \<comment> \<open>\<^verbatim>\<open>crypto.timingSafeEqual\<close> on buffers of different length\<close>
  | JSONSyntaxError           \<comment> \<open>\<^verbatim>\<open>JSON.parse\<close> on a text that is not JSON\<close>
  | CannotReadProperty string \<comment> \<open>reading the named property of \<^verbatim>\<open>undefined\<close> or \<^verbatim>\<open>null\<close>\<close>
  | CannotConvertToPrimitive  \<comment> \<open>string conversion of an object without a callable \<^verbatim>\<open>toString\<close>\<close>
  | QueueRejected string      \<comment> \<open>the promise of \<^verbatim>\<open>crawlerService.queue\<close> was rejected\<close>

text \<open>
  Property access \<^verbatim>\<open>v.k\<close> on a parsed value, \<open>None\<close> standing for \<^verbatim>\<open>undefined\<close>, for the
  names the handler reads (\<^verbatim>\<open>repository\<close>, \<^verbatim>\<open>organization\<close>, \<^verbatim>\<open>events_url\<close>, \<^verbatim>\<open>private\<close>):
  none of them is an array index, \<^verbatim>\<open>length\<close> or a property of a prototype, so only an
  object can have one.
\<close>

fun get_prop :: "'n json option \<Rightarrow> string \<Rightarrow> js_error + 'n json option" where
  "get_prop None k = Inl (CannotReadProperty k)"
| "get_prop (Some JNull) k = Inl (CannotReadProperty k)"
| "get_prop (Some (JObj kvs)) k = Inr (map_of kvs k)"
| "get_prop (Some _) k = Inr None"

text \<open>Truthiness, as tested by \<^verbatim>\<open>c ? a : b\<close>, \<^verbatim>\<open>&&\<close> and \<^verbatim>\<open>if\<close>.\<close>

fun truthy :: "('n \<Rightarrow> bool) \<Rightarrow> 'n json option \<Rightarrow> bool" where
  "truthy nt None = False"
| "truthy nt (Some JNull) = False"
| "truthy nt (Some (JBool b)) = b"
| "truthy nt (Some (JNum n)) = nt n"
| "truthy nt (Some (JStr s)) = (s \<noteq> [])"
| "truthy nt (Some (JArr vs)) = True"
| "truthy nt (Some (JObj kvs)) = True"

text \<open>
  String conversion, as a template literal does it. An array is joined with commas, a
  \<^verbatim>\<open>null\<close> element giving the empty string. An object gives \<^verbatim>\<open>[object Object]\<close> through
  \<^verbatim>\<open>Object.prototype.toString\<close>, unless it has an own property \<^verbatim>\<open>toString\<close>: a parsed
  value is never callable, and \<^verbatim>\<open>valueOf\<close> gives no primitive, so the conversion throws.
\<close>

fun to_string :: "('n \<Rightarrow> string) \<Rightarrow> 'n json \<Rightarrow> js_error + string"
  and join :: "('n \<Rightarrow> string) \<Rightarrow> 'n json list \<Rightarrow> js_error + string" where
  "to_string ns JNull = Inr ''null''"
| "to_string ns (JBool b) = Inr (if b then ''true'' else ''false'')"
| "to_string ns (JNum n) = Inr (ns n)"
| "to_string ns (JStr s) = Inr s"
| "to_string ns (JArr vs) = join ns vs"
| "to_string ns (JObj kvs) =
     (if map_of kvs ''toString'' = None then Inr ''[object Object]''
      else Inl CannotConvertToPrimitive)"
| "join ns [] = Inr []"
| "join ns (v # vs) =
     (case (if v = JNull then Inr [] else to_string ns v) of
        Inl e \<Rightarrow> Inl e
      | Inr s \<Rightarrow>
          (if vs = [] then Inr s
           else case join ns vs of Inl e \<Rightarrow> Inl e | Inr r \<Rightarrow> Inr (s @ '','' @ r)))"

subsection \<open>Library calls: buffers, digests, \<^verbatim>\<open>JSON.stringify\<close>\<close>

type_synonym byte = "8 word"

text \<open>
  \<^verbatim>\<open>new Buffer(s)\<close> encodes the string as UTF-8: a code unit below 128 is one byte, a code
  unit from 128 to 255 is two.
\<close>

definition utf8 :: "char \<Rightarrow> byte list" where
  "utf8 c =
     (let n = (of_char c :: nat)
      in if n < 128 then [of_nat n] else [of_nat (192 + n div 64), of_nat (128 + n mod 64)])"

definition Buffer_from :: "string \<Rightarrow> byte list" where
  "Buffer_from s = concat (map utf8 s)"

text \<open>
  \<^verbatim>\<open>crypto.timingSafeEqual(a, b)\<close> throws when the buffers differ in length, and otherwise
  tells whether they are equal.
\<close>

definition timingSafeEqual :: "byte list \<Rightarrow> byte list \<Rightarrow> js_error + bool" where
  "timingSafeEqual a b = (if length a \<noteq> length b then Inl BufferLengthMismatch else Inr (a = b))"

text \<open>\<^verbatim>\<open>digest('hex')\<close>: two lowercase hexadecimal digits for each byte.\<close>

definition hex_digits :: string where
  "hex_digits = ''0123456789abcdef''"

definition hex_digit :: "nat \<Rightarrow> char" where
  "hex_digit n = hex_digits ! (n mod 16)"

definition hex_byte :: "byte \<Rightarrow> string" where
  "hex_byte b = [hex_digit (unat b div 16), hex_digit (unat b mod 16)]"

definition digest_hex :: "byte list \<Rightarrow> string" where
  "digest_hex bs = concat (map hex_byte bs)"

text \<open>
  The values that the handler logs and passes to \<^verbatim>\<open>JSON.stringify\<close>: a header that may
  be absent, a string, or a function of the module, given by its name.
\<close>

datatype jsval = Undefined | Str string | Function string

definition of_header :: "string option \<Rightarrow> jsval" where
  "of_header h = (case h of None \<Rightarrow> Undefined | Some s \<Rightarrow> Str s)"

definition escape :: "char \<Rightarrow> string" where
  "escape c =
     (let n = (of_char c :: nat)
      in if n = 0x22 then [CHR 0x5C, CHR 0x22]
         else if n = 0x5C then [CHR 0x5C, CHR 0x5C]
         else if n = 0x08 then [CHR 0x5C, CHR ''b'']
         else if n = 0x0C then [CHR 0x5C, CHR ''f'']
         else if n = 0x0A then [CHR 0x5C, CHR ''n'']
         else if n = 0x0D then [CHR 0x5C, CHR ''r'']
         else if n = 0x09 then [CHR 0x5C, CHR ''t'']
         else if n < 0x20 then [CHR 0x5C, CHR ''u'', CHR ''0'', CHR ''0'', hex_digit (n div 16), hex_digit n]
         else [c])"

text \<open>
  \<^verbatim>\<open>JSON.stringify(v)\<close>: a string is quoted and escaped; for \<^verbatim>\<open>undefined\<close> and for a
  function the result is \<^verbatim>\<open>undefined\<close> (\<open>None\<close>).
\<close>

fun JSON_stringify :: "jsval \<Rightarrow> string option" where
  "JSON_stringify Undefined = None"
| "JSON_stringify (Function f) = None"
| "JSON_stringify (Str s) = Some ([CHR 0x22] @ concat (map escape s) @ [CHR 0x22])"

subsection \<open>Request, response, work item\<close>

text \<open>
  The HTTP request as the handler reads it: \<^verbatim>\<open>request.headers[name]\<close> is \<^verbatim>\<open>undefined\<close>
  (\<open>None\<close>) for a header that was not sent, and \<^verbatim>\<open>request.body\<close> is the raw text.
\<close>

record request =
  headers :: "string \<rightharpoonup> string"
  body :: string

text \<open>
  The response as it leaves the handler: the status set by \<^verbatim>\<open>response.status\<close>, the
  headers set by \<^verbatim>\<open>response.setHeader\<close>, and the argument of \<^verbatim>\<open>response.end\<close>, where
  \<open>None\<close> is \<^verbatim>\<open>end()\<close> or \<^verbatim>\<open>end(undefined)\<close>: nothing is written to the body.
\<close>

record response =
  status :: nat
  set_headers :: "(string \<times> string) list"
  ended_with :: "string option"

text \<open>The object literal assigned to \<^verbatim>\<open>result.payload\<close>.\<close>

record 'n payload =
  payload_body :: "'n json"
  payload_etag :: nat
  payload_fetchedAt :: string
  payload_type :: string
  payload_deliveryId :: jsval

text \<open>
  Modelled from the spec: the class \<^verbatim>\<open>Request\<close> of \<^verbatim>\<open>../lib/request\<close> is not in the
  sources. The spec (section 3, WorkItem) gives it a type tag, a target URL, a payload, a
  locking requirement flag and a context with an optional flag for private-repository
  access. The constructor takes the type tag and the URL; the payload and the locking flag
  are unset (\<open>None\<close>) and the context (field \<open>item_context\<close>, since \<open>context\<close> is a
  keyword) has no flag until the handler assigns them.
\<close>

record 'n Request =
  type :: string
  url :: string
  payload :: "'n payload option"
  requiresLock :: "bool option"
  item_context :: "string \<rightharpoonup> string"

definition new_Request :: "string \<Rightarrow> string \<Rightarrow> 'n Request" where
  "new_Request t u =
     \<lparr>type = t, url = u, payload = None, requiresLock = None, item_context = Map.empty\<rparr>"

subsection \<open>The collaborators set by \<^verbatim>\<open>setup(service, secret)\<close> and the platform\<close>

text \<open>How the promise returned by \<^verbatim>\<open>crawlerService.queue\<close> settles, if it does.\<close>

datatype settlement = Fulfilled | Rejected string | Never

text \<open>
  \<^verbatim>\<open>crawlerService\<close>: the configured \<^verbatim>\<open>options.queuing.events.provider\<close> and the
  behaviour of \<^verbatim>\<open>queue(item, queueName)\<close>.
\<close>

record 'n crawlerService =
  provider :: string
  queue :: "'n Request \<Rightarrow> string \<Rightarrow> settlement"

text \<open>
  The platform functions the handler calls, as parameters: the HMAC-SHA1 of a message
  under a key (\<^verbatim>\<open>crypto.createHmac('sha1', key).update(data)\<close>, before the digest is
  encoded), \<^verbatim>\<open>JSON.parse\<close> (\<open>None\<close> when it throws), the two observations on numbers,
  and the result of \<^verbatim>\<open>moment.utc().toISOString()\<close>.
\<close>

record 'n platform =
  hmac_sha1 :: "string \<Rightarrow> string \<Rightarrow> byte list"
  JSON_parse :: "string \<Rightarrow> 'n json option"
  number_truthy :: "'n \<Rightarrow> bool"
  number_to_string :: "'n \<Rightarrow> string"
  utc_now :: string

subsection \<open>Effects and runs\<close>

datatype level = Verbose | Info | Warn | Error

text \<open>
  One effect of the handler: a call \<^verbatim>\<open>getLogger().level(args..., meta)\<close>, the call
  \<^verbatim>\<open>crawlerService.queue(item, name)\<close>, the settling of the promise the handler waits
  for at \<^verbatim>\<open>yield\<close>, or the response sent by \<^verbatim>\<open>response.end\<close>.
\<close>

datatype 'n effect =
    Log level "jsval list" "(string \<times> jsval) list"
  | Queue "'n Request" string
  | Settled settlement
  | Respond response

text \<open>
  How the body of the generator ends. A thrown exception rejects the promise made by
  \<^verbatim>\<open>wrap\<close>; what happens to it then is outside this file.
\<close>

datatype ending = Returned | Threw js_error | Suspended

record 'n run =
  trace :: "'n effect list"
  ending :: ending

subsection \<open>The handler\<close>

text \<open>The log lines, each a call of a method of \<^verbatim>\<open>getLogger()\<close>, and the two ways of responding.\<close>

definition log_received :: "request \<Rightarrow> 'n effect" where
  "log_received request =
     Log Verbose [Str ''Received'', Str ''Webhook event'']
       [(''delivery'', of_header (headers request ''x-github-delivery''))]"

definition log_ignored :: "request \<Rightarrow> 'n effect" where
  "log_ignored request =
     Log Info [Str ''Ignored'', Str ''Webhook event'']
       [(''delivery'', of_header (headers request ''x-github-delivery'')),
        (''eventType'', of_header (headers request ''x-github-event'')),
        (''signature'', of_header (headers request ''x-hub-signature''))]"

definition log_mismatch :: "request \<Rightarrow> string \<Rightarrow> 'n effect" where
  "log_mismatch request computedSignature =
     Log Info [Str ''X-Hub-Signature'', Str ''does not match blob signature'']
       [(''delivery'', of_header (headers request ''x-github-delivery'')),
        (''signature'', of_header (headers request ''x-hub-signature'')),
        (''computedSignature'', Str computedSignature),
        (''eventType'', of_header (headers request ''x-github-event'')),
        (''body'', Str (body request))]"

definition log_queued :: "request \<Rightarrow> string \<Rightarrow> 'n effect" where
  "log_queued request eventsUrl =
     Log Info [Str ''Queued'', Str (''Webhook event for '' @ eventsUrl)]
       [(''delivery'', of_header (headers request ''x-github-delivery''))]"

text \<open>\<^verbatim>\<open>response.status(200).end()\<close>\<close>

definition ok :: response where
  "ok = \<lparr>status = 200, set_headers = [], ended_with = None\<rparr>"

text \<open>
  \<^verbatim>\<open>function warn(request, response, message)\<close>. It logs and stringifies \<^verbatim>\<open>fatal\<close>, the
  function declared below it in the module, not its parameter \<^verbatim>\<open>message\<close>.
\<close>

definition warn :: "request \<Rightarrow> string \<Rightarrow> 'n effect list" where
  "warn request message =
     [Log Warn [Function ''fatal''] [(''delivery'', of_header (headers request ''x-github-delivery''))],
      Respond \<lparr>status = 500, set_headers = [(''content-type'', ''text/plain'')],
               ended_with = JSON_stringify (Function ''fatal'')\<rparr>]"

text \<open>\<^verbatim>\<open>function fatal(request, response, error)\<close>\<close>

definition fatal :: "request \<Rightarrow> string \<Rightarrow> 'n effect list" where
  "fatal request error =
     [Log Error [Str error] [(''delivery'', of_header (headers request ''x-github-delivery''))],
      Respond \<lparr>status = 400, set_headers = [(''content-type'', ''text/plain'')],
               ended_with = JSON_stringify (Str error)\<rparr>]"

text \<open>\<^verbatim>\<open>!h\<close> for a header value: true when the header is absent or the empty string.\<close>

definition falsy :: "string option \<Rightarrow> bool" where
  "falsy h = (case h of None \<Rightarrow> True | Some s \<Rightarrow> s = [])"

text \<open>A header value as a string, as in a template literal: \<^verbatim>\<open>undefined\<close> is spelled out.\<close>

definition header_string :: "string option \<Rightarrow> string" where
  "header_string h = (case h of None \<Rightarrow> ''undefined'' | Some s \<Rightarrow> s)"

text \<open>A parsed value inside a template literal.\<close>

definition template :: "'n platform \<Rightarrow> 'n json option \<Rightarrow> js_error + string" where
  "template pf v = (case v of None \<Rightarrow> Inr ''undefined'' | Some j \<Rightarrow> to_string (number_to_string pf) j)"

text \<open>
  \<^verbatim>\<open>'sha1=' + crypto.createHmac('sha1', webhookSecret).update(data).digest('hex')\<close>
\<close>

definition computedSignature :: "'n platform \<Rightarrow> string \<Rightarrow> string \<Rightarrow> string" where
  "computedSignature pf webhookSecret data = ''sha1='' @ digest_hex (hmac_sha1 pf webhookSecret data)"

text \<open>
  \<^verbatim>\<open>event.repository ? event.repository.events_url : event.organization.events_url\<close>
\<close>

definition eventsUrl_of :: "'n platform \<Rightarrow> 'n json \<Rightarrow> js_error + 'n json option" where
  "eventsUrl_of pf event =
     (case get_prop (Some event) ''repository'' of
        Inl e \<Rightarrow> Inl e
      | Inr repository \<Rightarrow>
          if truthy (number_truthy pf) repository then get_prop repository ''events_url''
          else (case get_prop (Some event) ''organization'' of
                  Inl e \<Rightarrow> Inl e
                | Inr organization \<Rightarrow> get_prop organization ''events_url''))"

text \<open>\<^verbatim>\<open>event.repository && event.repository.private\<close>, as tested by the \<^verbatim>\<open>if\<close> of line 46.\<close>

definition private_repository :: "'n platform \<Rightarrow> 'n json \<Rightarrow> js_error + bool" where
  "private_repository pf event =
     (case get_prop (Some event) ''repository'' of
        Inl e \<Rightarrow> Inl e
      | Inr repository \<Rightarrow>
          if \<not> truthy (number_truthy pf) repository then Inr False
          else (case get_prop repository ''private'' of
                  Inl e \<Rightarrow> Inl e
                | Inr p \<Rightarrow> Inr (truthy (number_truthy pf) p)))"

text \<open>
  Lines 41 to 48: the work item built from the text of the target URL, the parsed event
  and the headers of the request, given whether the \<^verbatim>\<open>if\<close> of line 46 is taken.
\<close>

definition work_item :: "'n platform \<Rightarrow> request \<Rightarrow> string \<Rightarrow> 'n json \<Rightarrow> bool \<Rightarrow> 'n Request" where
  "work_item pf request target event private =
     (let result = new_Request ''event_trigger'' target;
          result = result\<lparr>payload := Some \<lparr>payload_body = event, payload_etag = 1,
                      payload_fetchedAt = utc_now pf,
                      payload_type = header_string (headers request ''x-github-event''),
                      payload_deliveryId = of_header (headers request ''x-github-delivery'')\<rparr>\<rparr>;
          result = result\<lparr>requiresLock := Some False\<rparr>
      in if private then result\<lparr>item_context := (item_context result)(''repoType'' \<mapsto> ''private'')\<rparr>
         else result)"

text \<open>
  Modelled from the spec: the middleware \<^verbatim>\<open>wrap\<close> of \<^verbatim>\<open>../middleware/promiseWrap\<close>, which
  drives the generator, is not in the sources. By the spec (sections 4.1, 5 and 9) the
  handler suspends at \<^verbatim>\<open>yield\<close> until the promise of the enqueue call settles, and the
  failure of that call becomes an error of the handler.

  Lines 49 to 52: the call \<^verbatim>\<open>crawlerService.queue(result, 'events')\<close> and what follows the
  \<^verbatim>\<open>yield\<close>. After a fulfilment the handler logs and responds; a rejection is thrown at
  the \<^verbatim>\<open>yield\<close>; while the promise is unsettled the generator stays suspended.
\<close>

definition enqueue ::
  "'n crawlerService \<Rightarrow> request \<Rightarrow> 'n effect list \<Rightarrow> 'n Request \<Rightarrow> string \<Rightarrow> 'n run" where
  "enqueue crawlerService request t result eventsUrl =
     (let t = t @ [Queue result ''events'']
      in case queue crawlerService result ''events'' of
           Never \<Rightarrow> \<lparr>trace = t, ending = Suspended\<rparr>
         | Rejected reason \<Rightarrow>
             \<lparr>trace = t @ [Settled (Rejected reason)], ending = Threw (QueueRejected reason)\<rparr>
         | Fulfilled \<Rightarrow>
             \<lparr>trace = t @ [Settled Fulfilled, log_queued request eventsUrl, Respond ok],
              ending = Returned\<rparr>)"

text \<open>
  Lines 33 to 52, reached when the checks have passed, so that both headers are present;
  \<open>t\<close> is the trace so far.
\<close>

definition process ::
  "'n platform \<Rightarrow> 'n crawlerService \<Rightarrow> string \<Rightarrow> request \<Rightarrow> 'n effect list \<Rightarrow> 'n run" where
  "process pf crawlerService webhookSecret request t =
     (let deliveryId = header_string (headers request ''x-github-delivery'');
          signature = header_string (headers request ''x-hub-signature'');
          data = body request;
          computed = computedSignature pf webhookSecret data
      in case timingSafeEqual (Buffer_from signature) (Buffer_from computed) of
           Inl e \<Rightarrow> \<lparr>trace = t, ending = Threw e\<rparr>
         | Inr equal \<Rightarrow>
             (let t = (if \<not> equal then t @ [log_mismatch request computed] else t)
              in case JSON_parse pf (body request) of
                   None \<Rightarrow> \<lparr>trace = t, ending = Threw JSONSyntaxError\<rparr>
                 | Some event \<Rightarrow>
                     (case eventsUrl_of pf event of
                        Inl e \<Rightarrow> \<lparr>trace = t, ending = Threw e\<rparr>
                      | Inr eventsUrl \<Rightarrow>
                          (case template pf eventsUrl of
                             Inl e \<Rightarrow> \<lparr>trace = t, ending = Threw e\<rparr>
                           | Inr u \<Rightarrow>
                               (case private_repository pf event of
                                  Inl e \<Rightarrow> \<lparr>trace = t, ending = Threw e\<rparr>
                                | Inr private \<Rightarrow>
                                    enqueue crawlerService request t
                                      (work_item pf request (u @ ''/'' @ deliveryId) event private)
                                      u)))))"

text \<open>
  \<^verbatim>\<open>router.post('/', wrap(function* (request, response, next) { ... }))\<close>: the body of the
  generator, lines 15 to 52.
\<close>

definition post :: "'n platform \<Rightarrow> 'n crawlerService \<Rightarrow> string \<Rightarrow> request \<Rightarrow> 'n run" where
  "post pf crawlerService webhookSecret request =
     (if provider crawlerService \<noteq> ''webhook''
      then \<lparr>trace = warn request ''Webhooks not enabled'', ending = Returned\<rparr>
      else
        let t = [log_received request];
            signature = headers request ''x-hub-signature'';
            eventType = headers request ''x-github-event''
        in if falsy signature \<or> falsy eventType
           then \<lparr>trace = t @ fatal request ''Missing signature or event type on GitHub webhook'',
                 ending = Returned\<rparr>
           else if header_string eventType \<in> set [''check_run'', ''check_suite'']
           then \<lparr>trace = t @ [log_ignored request, Respond ok], ending = Returned\<rparr>
           else process pf crawlerService webhookSecret request t)"

subsection \<open>What a run shows\<close>

text \<open>The responses written and the enqueue calls made in a trace, in order.\<close>

fun responses :: "'n effect list \<Rightarrow> response list" where
  "responses [] = []"
| "responses (Respond r # es) = r # responses es"
| "responses (_ # es) = responses es"

fun enqueued :: "'n effect list \<Rightarrow> ('n Request \<times> string) list" where
  "enqueued [] = []"
| "enqueued (Queue item name # es) = (item, name) # enqueued es"
| "enqueued (_ # es) = enqueued es"

text \<open>A parsed value has a key when it is an object with that property.\<close>

definition has_key :: "'n json \<Rightarrow> string \<Rightarrow> bool" where
  "has_key v k = (case v of JObj kvs \<Rightarrow> k \<in> fst ` set kvs | _ \<Rightarrow> False)"

subsection \<open>Example deliveries\<close>

text \<open>
  Concrete inputs for the theorems below. Numbers are represented by their decimal text.
  The example platform knows \<^verbatim>\<open>JSON.parse\<close> and HMAC-SHA1 (under the secret
  \<^verbatim>\<open>s3cret\<close>) on the five example bodies, where it agrees with Node.
\<close>

definition ex_public_body :: string where
  \<open>ex_public_body =
     ''{"repository":{"events_url":"https://api.github.com/repos/o/r/events","private":false}}''\<close>

definition ex_public_event :: "string json" where
  "ex_public_event =
     JObj [(''repository'',
            JObj [(''events_url'', JStr ''https://api.github.com/repos/o/r/events''),
                  (''private'', JBool False)])]"

definition ex_private_body :: string where
  \<open>ex_private_body =
     ''{"repository":{"events_url":"https://api.github.com/repos/o/r/events","private":true}}''\<close>

definition ex_private_event :: "string json" where
  "ex_private_event =
     JObj [(''repository'',
            JObj [(''events_url'', JStr ''https://api.github.com/repos/o/r/events''),
                  (''private'', JBool True)])]"

definition ex_org_body :: string where
  \<open>ex_org_body =
     ''{"repository":null,"organization":{"events_url":"https://api.github.com/orgs/o/events"}}''\<close>

definition ex_org_event :: "string json" where
  "ex_org_event =
     JObj [(''repository'', JNull),
           (''organization'', JObj [(''events_url'', JStr ''https://api.github.com/orgs/o/events'')])]"

definition ex_empty_body :: string where
  "ex_empty_body = ''{}''"

definition ex_null_body :: string where
  "ex_null_body = ''null''"

definition ex_parse :: "string \<Rightarrow> string json option" where
  "ex_parse s =
     (if s = ex_public_body then Some ex_public_event
      else if s = ex_private_body then Some ex_private_event
      else if s = ex_org_body then Some ex_org_event
      else if s = ex_empty_body then Some (JObj [])
      else if s = ex_null_body then Some JNull
      else None)"

definition ex_hmac :: "string \<Rightarrow> string \<Rightarrow> byte list" where
  "ex_hmac k d =
     (if k = ''s3cret'' \<and> d = ex_public_body then
        [188, 200, 72, 120, 221, 15, 240, 180, 176, 82, 38, 182, 50, 141, 230, 171, 223, 127, 180, 223]
      else if k = ''s3cret'' \<and> d = ex_private_body then
        [182, 211, 211, 111, 149, 124, 7, 94, 243, 222, 33, 134, 124, 49, 147, 58, 68, 254, 39, 26]
      else if k = ''s3cret'' \<and> d = ex_org_body then
        [134, 112, 19, 104, 78, 68, 7, 44, 29, 143, 175, 224, 220, 119, 154, 169, 60, 143, 149, 241]
      else if k = ''s3cret'' \<and> d = ex_empty_body then
        [231, 224, 34, 82, 146, 249, 117, 234, 183, 212, 137, 153, 234, 82, 0, 32, 239, 145, 177, 141]
      else if k = ''s3cret'' \<and> d = ex_null_body then
        [121, 84, 19, 193, 52, 6, 26, 41, 253, 37, 168, 0, 81, 153, 128, 205, 43, 222, 23, 215]
      else replicate 20 0)"

definition ex_platform :: "string platform" where
  "ex_platform =
     \<lparr>hmac_sha1 = ex_hmac, JSON_parse = ex_parse,
      number_truthy = (\<lambda>n. n \<noteq> ''0'' \<and> n \<noteq> ''-0''), number_to_string = (\<lambda>n. n),
      utc_now = ''2018-06-01T12:00:00.000Z''\<rparr>"

text \<open>Three services: one that accepts every item, one whose queue fails, one not set up for webhooks.\<close>

definition ex_service :: "string crawlerService" where
  "ex_service = \<lparr>provider = ''webhook'', queue = (\<lambda>item name. Fulfilled)\<rparr>"

definition ex_failing_service :: "string crawlerService" where
  "ex_failing_service = \<lparr>provider = ''webhook'', queue = (\<lambda>item name. Rejected ''queue unavailable'')\<rparr>"

definition ex_disabled_service :: "string crawlerService" where
  "ex_disabled_service = \<lparr>provider = ''amqp'', queue = (\<lambda>item name. Fulfilled)\<rparr>"

text \<open>A delivery \<^verbatim>\<open>d-1\<close> with the given signature, event type and body.\<close>

definition ex_delivery :: "string \<Rightarrow> string \<Rightarrow> string \<Rightarrow> request" where
  "ex_delivery signature eventType data =
     \<lparr>headers = [''x-github-delivery'' \<mapsto> ''d-1'', ''x-hub-signature'' \<mapsto> signature,
                 ''x-github-event'' \<mapsto> eventType],
      body = data\<rparr>"

text \<open>A delivery without the signature header.\<close>

definition ex_unsigned :: "string \<Rightarrow> string \<Rightarrow> request" where
  "ex_unsigned eventType data =
     \<lparr>headers = [''x-github-delivery'' \<mapsto> ''d-1'', ''x-github-event'' \<mapsto> eventType], body = data\<rparr>"

text \<open>The signatures of the example bodies under \<^verbatim>\<open>s3cret\<close>, and one of the right length that matches none.\<close>

definition ex_public_signature :: string where
  "ex_public_signature = ''sha1=bcc84878dd0ff0b4b05226b6328de6abdf7fb4df''"

definition ex_private_signature :: string where
  "ex_private_signature = ''sha1=b6d3d36f957c075ef3de21867c31933a44fe271a''"

definition ex_org_signature :: string where
  "ex_org_signature = ''sha1=867013684e44072c1d8fafe0dc779aa93c8f95f1''"

definition ex_empty_signature :: string where
  "ex_empty_signature = ''sha1=e7e0225292f975eab7d48999ea520020ef91b18d''"

definition ex_null_signature :: string where
  "ex_null_signature = ''sha1=795413c134061a29fd25a800519980cd2bde17d7''"

definition ex_wrong_signature :: string where
  "ex_wrong_signature = ''sha1=0000000000000000000000000000000000000000''"


section \<open>Properties\<close>

subsection \<open>Traces\<close>

lemma responses_append: "responses (a @ b) = responses a @ responses b"
  by (induction a rule: responses.induct) simp_all

lemma enqueued_append: "enqueued (a @ b) = enqueued a @ enqueued b"
  by (induction a rule: enqueued.induct) simp_all

lemma Respond_in_responses: "Respond x \<in> set t \<Longrightarrow> x \<in> set (responses t)"
  by (induction t rule: responses.induct) auto

lemma split_at_Respond:
  assumes "responses t = []" and "t @ es @ [Respond x] = pre @ Respond y # rest"
    and "responses es = []"
  shows "pre = t @ es \<and> rest = []"
proof -
  have no: "Respond y \<notin> set (t @ es)"
    using assms(1,3) Respond_in_responses [of y "t @ es"] by (auto simp add: responses_append)
  from assms(2) have eq: "(t @ es) @ [Respond x] = pre @ Respond y # rest" by simp
  show ?thesis
  proof (cases rest rule: rev_cases)
    case Nil
    with eq show ?thesis by simp
  next
    case (snoc ys z)
    with eq have "t @ es = pre @ Respond y # ys" by (metis append.assoc append_Cons butlast_snoc)
    with no show ?thesis by (metis in_set_conv_decomp)
  qed
qed

subsection \<open>The branches of the handler\<close>

lemma post_disabled:
  "provider cs \<noteq> ''webhook'' \<Longrightarrow>
   post pf cs secret r = \<lparr>trace = warn r ''Webhooks not enabled'', ending = Returned\<rparr>"
  by (simp add: post_def)

lemma post_missing:
  "provider cs = ''webhook'' \<Longrightarrow>
   falsy (headers r ''x-hub-signature'') \<or> falsy (headers r ''x-github-event'') \<Longrightarrow>
   post pf cs secret r =
     \<lparr>trace = log_received r # fatal r ''Missing signature or event type on GitHub webhook'',
      ending = Returned\<rparr>"
  by (auto simp add: post_def Let_def)

lemma post_ignored:
  "provider cs = ''webhook'' \<Longrightarrow> headers r ''x-hub-signature'' = Some s \<Longrightarrow> s \<noteq> [] \<Longrightarrow>
   headers r ''x-github-event'' = Some e \<Longrightarrow> e = ''check_run'' \<or> e = ''check_suite'' \<Longrightarrow>
   post pf cs secret r = \<lparr>trace = [log_received r, log_ignored r, Respond ok], ending = Returned\<rparr>"
  by (auto simp add: post_def Let_def falsy_def header_string_def)

lemma post_process:
  "provider cs = ''webhook'' \<Longrightarrow> headers r ''x-hub-signature'' = Some s \<Longrightarrow> s \<noteq> [] \<Longrightarrow>
   headers r ''x-github-event'' = Some e \<Longrightarrow> e \<noteq> [] \<Longrightarrow> e \<notin> set [''check_run'', ''check_suite''] \<Longrightarrow>
   post pf cs secret r = process pf cs secret r [log_received r]"
  by (simp add: post_def Let_def falsy_def header_string_def)

lemma process_length:
  "length (Buffer_from (header_string (headers r ''x-hub-signature'')))
     \<noteq> length (Buffer_from (computedSignature pf secret (body r))) \<Longrightarrow>
   process pf cs secret r t = \<lparr>trace = t, ending = Threw BufferLengthMismatch\<rparr>"
  by (simp add: process_def timingSafeEqual_def Let_def)

lemma truthy_get_prop: "truthy nt v \<Longrightarrow> \<exists>w. get_prop v k = Inr w"
  by (induction nt v rule: truthy.induct) simp_all

lemma private_repository_total:
  "eventsUrl_of pf event = Inr E \<Longrightarrow> \<exists>p. private_repository pf event = Inr p"
  using truthy_get_prop [of "number_truthy pf" _ "''private''"]
  by (fastforce simp add: eventsUrl_of_def private_repository_def split: sum.splits if_splits)

lemma process_enqueue:
  assumes "length (Buffer_from (header_string (headers r ''x-hub-signature'')))
             = length (Buffer_from (computedSignature pf secret (body r)))"
    and "JSON_parse pf (body r) = Some event"
    and "eventsUrl_of pf event = Inr E"
    and "template pf E = Inr u"
    and "private_repository pf event = Inr p"
  shows "process pf cs secret r t =
           enqueue cs r
             (if Buffer_from (header_string (headers r ''x-hub-signature''))
                   = Buffer_from (computedSignature pf secret (body r)) then t
              else t @ [log_mismatch r (computedSignature pf secret (body r))])
             (work_item pf r (u @ ''/'' @ header_string (headers r ''x-github-delivery'')) event p)
             u"
  using assms by (simp add: process_def timingSafeEqual_def Let_def)

text \<open>Whatever \<open>process\<close> does, it ends in one of these ways.\<close>

lemma process_cases:
  obtains (threw) t' err where
      "t' = t \<or> t' = t @ [log_mismatch r (computedSignature pf secret (body r))]"
      "process pf cs secret r t = \<lparr>trace = t', ending = Threw err\<rparr>"
  | (enqueued) t' event E u p where
      "t' = t \<or> t' = t @ [log_mismatch r (computedSignature pf secret (body r))]"
      "length (Buffer_from (header_string (headers r ''x-hub-signature'')))
             = length (Buffer_from (computedSignature pf secret (body r)))"
      "JSON_parse pf (body r) = Some event" "eventsUrl_of pf event = Inr E"
      "template pf E = Inr u" "private_repository pf event = Inr p"
      "process pf cs secret r t =
         enqueue cs r t'
           (work_item pf r (u @ ''/'' @ header_string (headers r ''x-github-delivery'')) event p) u"
proof (cases "length (Buffer_from (header_string (headers r ''x-hub-signature'')))
             = length (Buffer_from (computedSignature pf secret (body r)))")
  case False
  then show ?thesis using threw [of t] process_length by blast
next
  case len: True
  let ?t = "if Buffer_from (header_string (headers r ''x-hub-signature''))
                   = Buffer_from (computedSignature pf secret (body r)) then t
              else t @ [log_mismatch r (computedSignature pf secret (body r))]"
  have t: "?t = t \<or> ?t = t @ [log_mismatch r (computedSignature pf secret (body r))]"
    by simp
  show ?thesis
  proof (cases "JSON_parse pf (body r)")
    case None
    with len have "process pf cs secret r t = \<lparr>trace = ?t, ending = Threw JSONSyntaxError\<rparr>"
      by (simp add: process_def timingSafeEqual_def Let_def)
    with t show ?thesis by (rule threw)
  next
    case (Some event)
    show ?thesis
    proof (cases "eventsUrl_of pf event")
      case (Inl err)
      with len Some have "process pf cs secret r t = \<lparr>trace = ?t, ending = Threw err\<rparr>"
        by (simp add: process_def timingSafeEqual_def Let_def)
      with t show ?thesis by (rule threw)
    next
      case (Inr E)
      from private_repository_total [OF Inr] obtain p where p: "private_repository pf event = Inr p" ..
      show ?thesis
      proof (cases "template pf E")
        case (Inl err)
        with len Some Inr have "process pf cs secret r t = \<lparr>trace = ?t, ending = Threw err\<rparr>"
          by (simp add: process_def timingSafeEqual_def Let_def)
        with t show ?thesis by (rule threw)
      next
        case u: (Inr u)
        from t process_enqueue [OF len Some Inr u p, of cs t]
        show ?thesis by (rule enqueued [OF _ len Some Inr u p])
      qed
    qed
  qed
qed

lemma enqueue_shape:
  "enqueue cs r t item u =
     \<lparr>trace = t @ Queue item ''events'' #
         (case queue cs item ''events'' of
            Never \<Rightarrow> []
          | Rejected reason \<Rightarrow> [Settled (Rejected reason)]
          | Fulfilled \<Rightarrow> [Settled Fulfilled, log_queued r u, Respond ok]),
      ending =
         (case queue cs item ''events'' of
            Never \<Rightarrow> Suspended
          | Rejected reason \<Rightarrow> Threw (QueueRejected reason)
          | Fulfilled \<Rightarrow> Returned)\<rparr>"
  by (simp add: enqueue_def Let_def split: settlement.split)

lemma quiet_prefix:
  "t' = [log_received r] \<or> t' = [log_received r] @ [log_mismatch r c] \<Longrightarrow>
   responses t' = [] \<and> enqueued t' = []"
  by (auto simp add: log_received_def log_mismatch_def)

text \<open>Every run of the handler has one of five shapes.\<close>

lemma post_cases:
  obtains (disabled) "provider cs \<noteq> ''webhook''"
      "post pf cs secret r = \<lparr>trace = warn r ''Webhooks not enabled'', ending = Returned\<rparr>"
  | (missing) "provider cs = ''webhook''"
      "falsy (headers r ''x-hub-signature'') \<or> falsy (headers r ''x-github-event'')"
      "post pf cs secret r =
         \<lparr>trace = log_received r # fatal r ''Missing signature or event type on GitHub webhook'',
          ending = Returned\<rparr>"
  | (ignored) "provider cs = ''webhook''"
      "post pf cs secret r = \<lparr>trace = [log_received r, log_ignored r, Respond ok], ending = Returned\<rparr>"
  | (failed) t' err where "provider cs = ''webhook''" "responses t' = []" "enqueued t' = []"
      "post pf cs secret r = \<lparr>trace = t', ending = Threw err\<rparr>"
  | (queued) t' event E u p where "provider cs = ''webhook''" "responses t' = []" "enqueued t' = []"
      "JSON_parse pf (body r) = Some event" "eventsUrl_of pf event = Inr E"
      "template pf E = Inr u" "private_repository pf event = Inr p"
      "post pf cs secret r =
         enqueue cs r t'
           (work_item pf r (u @ ''/'' @ header_string (headers r ''x-github-delivery'')) event p) u"
proof (cases "provider cs = ''webhook''")
  case False
  then show ?thesis using disabled post_disabled by blast
next
  case on: True
  show ?thesis
  proof (cases "falsy (headers r ''x-hub-signature'') \<or> falsy (headers r ''x-github-event'')")
    case True
    with on show ?thesis using missing post_missing by blast
  next
    case False
    then obtain s e where h: "headers r ''x-hub-signature'' = Some s" "s \<noteq> []"
      "headers r ''x-github-event'' = Some e" "e \<noteq> []"
      by (auto simp add: falsy_def split: option.splits)
    show ?thesis
    proof (cases "e = ''check_run'' \<or> e = ''check_suite''")
      case True
      from post_ignored [OF on h(1,2,3) True] on show ?thesis using ignored by blast
    next
      case False
      then have "e \<notin> set [''check_run'', ''check_suite'']" by simp
      from post_process [OF on h this]
      have eq: "post pf cs secret r = process pf cs secret r [log_received r]" .
      show ?thesis
      proof (cases pf cs secret r "[log_received r] :: 'a effect list" rule: process_cases)
        case (threw t' err)
        from quiet_prefix [of t' r] threw(1) on eq threw(2) show ?thesis
          using failed [of t' err] by simp
      next
        case (enqueued t' event E u p)
        from quiet_prefix [of t' r] enqueued(1) on eq enqueued(3-7) show ?thesis
          using queued [of t' event E u p] by simp
      qed
    qed
  qed
qed

lemma Queue_in_enqueued: "Queue item name \<in> set t \<Longrightarrow> (item, name) \<in> set (enqueued t)"
  by (induction t rule: enqueued.induct) auto

lemma enqueued_enqueue:
  "enqueued t = [] \<Longrightarrow> enqueued (trace (enqueue cs r t item u)) = [(item, ''events'')]"
  by (simp add: enqueue_shape enqueued_append log_queued_def split: settlement.split)

lemma responses_enqueue:
  "responses t = [] \<Longrightarrow>
   responses (trace (enqueue cs r t item u)) = (if queue cs item ''events'' = Fulfilled then [ok] else [])"
  by (simp add: enqueue_shape responses_append log_queued_def split: settlement.split)

lemma enqueued_warn: "enqueued (warn r m) = []"
  by (simp add: warn_def)

lemma enqueued_fatal: "enqueued (fatal r m) = []"
  by (simp add: fatal_def)

lemma post_Queue:
  assumes "Queue item name \<in> set (trace (post pf cs secret r))"
  obtains t' event E u p where "responses t' = []" "enqueued t' = []"
    "JSON_parse pf (body r) = Some event" "eventsUrl_of pf event = Inr E"
    "template pf E = Inr u" "private_repository pf event = Inr p"
    "item = work_item pf r (u @ ''/'' @ header_string (headers r ''x-github-delivery'')) event p"
    "name = ''events''"
    "post pf cs secret r = enqueue cs r t' item u"
proof -
  from assms have q: "(item, name) \<in> set (enqueued (trace (post pf cs secret r)))"
    by (rule Queue_in_enqueued)
  show ?thesis
  proof (cases pf cs secret r rule: post_cases)
    case disabled
    with q show ?thesis by (simp add: enqueued_warn)
  next
    case missing
    with q show ?thesis by (simp add: enqueued_fatal log_received_def)
  next
    case ignored
    with q show ?thesis by (simp add: log_received_def log_ignored_def)
  next
    case (failed t' err)
    with q show ?thesis by simp
  next
    case (queued t' event E u p)
    from q queued(8) enqueued_enqueue [OF queued(3)]
    have "item = work_item pf r (u @ ''/'' @ header_string (headers r ''x-github-delivery'')) event p"
      and "name = ''events''" by simp_all
    with queued show ?thesis using that by simp
  qed
qed

lemma url_work_item: "url (work_item pf r target event p) = target"
  by (simp add: work_item_def new_Request_def Let_def)

lemma requiresLock_work_item: "requiresLock (work_item pf r target event p) = Some False"
  by (simp add: work_item_def new_Request_def Let_def)

lemma context_work_item:
  "item_context (work_item pf r target event p) = (if p then [''repoType'' \<mapsto> ''private''] else Map.empty)"
  by (simp add: work_item_def new_Request_def Let_def)

lemmas ex_defs =
  ex_platform_def ex_service_def ex_failing_service_def ex_disabled_service_def
  ex_delivery_def ex_unsigned_def ex_parse_def ex_hmac_def
  ex_public_body_def ex_private_body_def ex_org_body_def ex_empty_body_def ex_null_body_def
  ex_public_event_def ex_private_event_def ex_org_event_def
  ex_public_signature_def ex_private_signature_def ex_org_signature_def
  ex_empty_signature_def ex_null_signature_def ex_wrong_signature_def

lemmas handler_defs =
  post_def process_def enqueue_def work_item_def new_Request_def private_repository_def
  eventsUrl_of_def template_def computedSignature_def header_string_def falsy_def
  timingSafeEqual_def Buffer_from_def utf8_def digest_hex_def hex_byte_def hex_digit_def
  hex_digits_def warn_def fatal_def Let_def

lemma byte_of_nat_eq: "a < 256 \<Longrightarrow> b < 256 \<Longrightarrow> (of_nat a :: byte) = of_nat b \<longleftrightarrow> a = b"
  by (simp add: word_of_nat_eq_iff take_bit_eq_mod)

lemma utf8_not_Nil: "utf8 c \<noteq> []"
  by (simp add: utf8_def Let_def)

lemma utf8_ascii: "(of_char c :: nat) < 128 \<Longrightarrow> utf8 c = [of_nat (of_char c)]"
  by (simp add: utf8_def)

lemma utf8_two:
  "\<not> (of_char c :: nat) < 128 \<Longrightarrow>
   utf8 c = [of_nat (192 + of_char c div 64), of_nat (128 + of_char c mod 64)]"
  by (simp add: utf8_def Let_def)

lemma utf8_prefix:
  assumes "utf8 c @ xs = utf8 d @ ys"
  shows "c = d \<and> xs = ys"
proof -
  let ?n = "of_char c :: nat" and ?m = "of_char d :: nat"
  have n: "?n < 256" and m: "?m < 256" by simp_all
  have hn: "192 + ?n div 64 < 256" and ln: "128 + ?n mod 64 < 256" using n by arith+
  have hm: "192 + ?m div 64 < 256" and lm: "128 + ?m mod 64 < 256" using m by arith+
  have "?n = ?m \<and> xs = ys"
  proof (cases "?n < 128"; cases "?m < 128")
    assume a: "?n < 128" "?m < 128"
    with assms have "(of_nat ?n :: byte) = of_nat ?m \<and> xs = ys"
      by (simp only: utf8_ascii [OF a(1)] utf8_ascii [OF a(2)] append_Cons append_Nil list.inject)
    with n m show ?thesis by (simp only: byte_of_nat_eq)
  next
    assume a: "?n < 128" "\<not> ?m < 128"
    with assms have "(of_nat ?n :: byte) = of_nat (192 + ?m div 64)"
      by (simp only: utf8_ascii [OF a(1)] utf8_two [OF a(2)] append_Cons append_Nil list.inject)
    with n hm have "?n = 192 + ?m div 64" by (simp only: byte_of_nat_eq)
    with a show ?thesis by arith
  next
    assume a: "\<not> ?n < 128" "?m < 128"
    with assms have "(of_nat (192 + ?n div 64) :: byte) = of_nat ?m"
      by (simp only: utf8_two [OF a(1)] utf8_ascii [OF a(2)] append_Cons append_Nil list.inject)
    with m hn have "192 + ?n div 64 = ?m" by (simp only: byte_of_nat_eq)
    with a show ?thesis by arith
  next
    assume a: "\<not> ?n < 128" "\<not> ?m < 128"
    with assms have "(of_nat (192 + ?n div 64) :: byte) = of_nat (192 + ?m div 64)
        \<and> (of_nat (128 + ?n mod 64) :: byte) = of_nat (128 + ?m mod 64) \<and> xs = ys"
      by (simp only: utf8_two [OF a(1)] utf8_two [OF a(2)] append_Cons append_Nil list.inject)
    with hn hm ln lm have "192 + ?n div 64 = 192 + ?m div 64 \<and> 128 + ?n mod 64 = 128 + ?m mod 64 \<and> xs = ys"
      by (simp only: byte_of_nat_eq)
    then have "?n div 64 = ?m div 64" "?n mod 64 = ?m mod 64" "xs = ys" by simp_all
    then show ?thesis by (metis div_mult_mod_eq)
  qed
  then show ?thesis by simp
qed

lemma Buffer_from_inject: "Buffer_from s = Buffer_from t \<Longrightarrow> s = t"
proof (induction s arbitrary: t)
  case Nil
  then show ?case by (cases t) (simp_all add: Buffer_from_def utf8_not_Nil)
next
  case (Cons c s)
  show ?case
  proof (cases t)
    case Nil
    with Cons.prems show ?thesis by (simp add: Buffer_from_def utf8_not_Nil)
  next
    case (Cons d t')
    with Cons.prems have "utf8 c @ Buffer_from s = utf8 d @ Buffer_from t'"
      by (simp add: Buffer_from_def)
    then have "c = d \<and> Buffer_from s = Buffer_from t'" by (rule utf8_prefix)
    with Cons.IH Cons show ?thesis by simp
  qed
qed

lemma hex_digit_in: "hex_digit n \<in> set hex_digits"
  unfolding hex_digit_def by (rule nth_mem) (simp add: hex_digits_def)

lemma set_digest_hex: "set (digest_hex bs) \<subseteq> set hex_digits"
  by (auto simp add: digest_hex_def hex_byte_def hex_digit_in)

lemma length_digest_hex: "length (digest_hex bs) = 2 * length bs"
  by (induction bs) (simp_all add: digest_hex_def hex_byte_def)

lemma length_utf8_hex: "c \<in> set hex_digits \<Longrightarrow> length (utf8 c) = 1"
  by (auto simp add: utf8_def hex_digits_def)

lemma length_Buffer_from_hex: "set s \<subseteq> set hex_digits \<Longrightarrow> length (Buffer_from s) = length s"
  by (induction s) (simp_all add: Buffer_from_def length_utf8_hex)

lemma length_Buffer_computedSignature:
  "length (Buffer_from (computedSignature pf secret data)) = 5 + 2 * length (hmac_sha1 pf secret data)"
proof -
  have "Buffer_from (computedSignature pf secret data) =
          Buffer_from ''sha1='' @ Buffer_from (digest_hex (hmac_sha1 pf secret data))"
    by (simp add: computedSignature_def Buffer_from_def)
  moreover have "length (Buffer_from ''sha1='') = 5"
    by (simp add: Buffer_from_def utf8_def)
  ultimately show ?thesis
    by (simp add: length_Buffer_from_hex [OF set_digest_hex] length_digest_hex)
qed


lemma Buffer_from_eq_iff: "Buffer_from s = Buffer_from t \<longleftrightarrow> s = t"
  using Buffer_from_inject by blast

lemma post_delivered:
  assumes "provider cs = ''webhook''"
    and "headers r ''x-hub-signature'' = Some s" and "s \<noteq> []"
    and "headers r ''x-github-event'' = Some e" and "e \<noteq> []"
    and "e \<notin> set [''check_run'', ''check_suite'']"
    and "length (Buffer_from s) = length (Buffer_from (computedSignature pf secret (body r)))"
    and "JSON_parse pf (body r) = Some event"
    and "eventsUrl_of pf event = Inr E"
    and "template pf E = Inr u"
  shows "\<exists>p. private_repository pf event = Inr p \<and>
           post pf cs secret r =
             enqueue cs r
               (if s = computedSignature pf secret (body r) then [log_received r]
                else [log_received r, log_mismatch r (computedSignature pf secret (body r))])
               (work_item pf r (u @ ''/'' @ header_string (headers r ''x-github-delivery'')) event p) u"
proof -
  from private_repository_total [OF assms(9)]
  obtain p where p: "private_repository pf event = Inr p" ..
  from assms(2,7)
  have len: "length (Buffer_from (header_string (headers r ''x-hub-signature'')))
               = length (Buffer_from (computedSignature pf secret (body r)))"
    by (simp add: header_string_def)
  from post_process [OF assms(1-6)] process_enqueue [OF len assms(8-10) p, of cs "[log_received r]"]
  have "post pf cs secret r =
          enqueue cs r
            (if s = computedSignature pf secret (body r) then [log_received r]
             else [log_received r, log_mismatch r (computedSignature pf secret (body r))])
            (work_item pf r (u @ ''/'' @ header_string (headers r ''x-github-delivery'')) event p) u"
    using assms(2) by (simp add: header_string_def Buffer_from_eq_iff)
  with p show ?thesis by blast
qed

lemma no_key: "\<not> has_key event k \<Longrightarrow> event \<noteq> JNull \<Longrightarrow> get_prop (Some event) k = Inr None"
  by (cases event) (simp_all add: has_key_def map_of_eq_None_iff)


subsection \<open>The example deliveries, run\<close>

lemma ex_public_run:
  "post ex_platform ex_service ''s3cret'' (ex_delivery ex_public_signature ''push'' ex_public_body) =
     \<lparr>trace =
        [log_received (ex_delivery ex_public_signature ''push'' ex_public_body),
         Queue (work_item ex_platform (ex_delivery ex_public_signature ''push'' ex_public_body)
                  ''https://api.github.com/repos/o/r/events/d-1'' ex_public_event False) ''events'',
         Settled Fulfilled,
         log_queued (ex_delivery ex_public_signature ''push'' ex_public_body)
           ''https://api.github.com/repos/o/r/events'',
         Respond ok],
      ending = Returned\<rparr>"
  by (simp add: handler_defs ex_defs)

lemma ex_private_run:
  "post ex_platform ex_service ''s3cret'' (ex_delivery ex_private_signature ''push'' ex_private_body) =
     \<lparr>trace =
        [log_received (ex_delivery ex_private_signature ''push'' ex_private_body),
         Queue (work_item ex_platform (ex_delivery ex_private_signature ''push'' ex_private_body)
                  ''https://api.github.com/repos/o/r/events/d-1'' ex_private_event True) ''events'',
         Settled Fulfilled,
         log_queued (ex_delivery ex_private_signature ''push'' ex_private_body)
           ''https://api.github.com/repos/o/r/events'',
         Respond ok],
      ending = Returned\<rparr>"
  by (simp add: handler_defs ex_defs)

lemma ex_org_run:
  "post ex_platform ex_service ''s3cret'' (ex_delivery ex_org_signature ''membership'' ex_org_body) =
     \<lparr>trace =
        [log_received (ex_delivery ex_org_signature ''membership'' ex_org_body),
         Queue (work_item ex_platform (ex_delivery ex_org_signature ''membership'' ex_org_body)
                  ''https://api.github.com/orgs/o/events/d-1'' ex_org_event False) ''events'',
         Settled Fulfilled,
         log_queued (ex_delivery ex_org_signature ''membership'' ex_org_body)
           ''https://api.github.com/orgs/o/events'',
         Respond ok],
      ending = Returned\<rparr>"
  by (simp add: handler_defs ex_defs)

lemma ex_failing_run:
  "post ex_platform ex_failing_service ''s3cret'' (ex_delivery ex_wrong_signature ''push'' ex_public_body) =
     \<lparr>trace =
        [log_received (ex_delivery ex_wrong_signature ''push'' ex_public_body),
         log_mismatch (ex_delivery ex_wrong_signature ''push'' ex_public_body) ex_public_signature,
         Queue (work_item ex_platform (ex_delivery ex_wrong_signature ''push'' ex_public_body)
                  ''https://api.github.com/repos/o/r/events/d-1'' ex_public_event False) ''events'',
         Settled (Rejected ''queue unavailable'')],
      ending = Threw (QueueRejected ''queue unavailable'')\<rparr>"
  by (simp add: handler_defs ex_defs)

lemma ex_empty_run:
  "post ex_platform ex_service ''s3cret'' (ex_delivery ex_wrong_signature ''push'' ex_empty_body) =
     \<lparr>trace =
        [log_received (ex_delivery ex_wrong_signature ''push'' ex_empty_body),
         log_mismatch (ex_delivery ex_wrong_signature ''push'' ex_empty_body) ex_empty_signature],
      ending = Threw (CannotReadProperty ''events_url'')\<rparr>"
  by (simp add: handler_defs ex_defs)

lemma ex_short_run:
  "post ex_platform ex_service ''s3cret'' (ex_delivery ''sha1=abc'' ''push'' ex_empty_body) =
     \<lparr>trace = [log_received (ex_delivery ''sha1=abc'' ''push'' ex_empty_body)],
      ending = Threw BufferLengthMismatch\<rparr>"
  by (simp add: handler_defs ex_defs)

lemma ex_null_run:
  "post ex_platform ex_service ''s3cret'' (ex_delivery ex_null_signature ''push'' ex_null_body) =
     \<lparr>trace = [log_received (ex_delivery ex_null_signature ''push'' ex_null_body)],
      ending = Threw (CannotReadProperty ''repository'')\<rparr>"
  by (simp add: handler_defs ex_defs)

lemma ex_computed:
  "computedSignature ex_platform ''s3cret'' ex_public_body = ex_public_signature"
  "computedSignature ex_platform ''s3cret'' ex_private_body = ex_private_signature"
  "computedSignature ex_platform ''s3cret'' ex_org_body = ex_org_signature"
  "computedSignature ex_platform ''s3cret'' ex_empty_body = ex_empty_signature"
  "computedSignature ex_platform ''s3cret'' ex_null_body = ex_null_signature"
  by (simp_all add: handler_defs ex_defs)

lemma ex_request [simp]:
  "headers (ex_delivery s e d) ''x-hub-signature'' = Some s"
  "headers (ex_delivery s e d) ''x-github-event'' = Some e"
  "headers (ex_delivery s e d) ''x-github-delivery'' = Some ''d-1''"
  "body (ex_delivery s e d) = d"
  "headers (ex_unsigned e d) ''x-hub-signature'' = None"
  "headers (ex_unsigned e d) ''x-github-event'' = Some e"
  "body (ex_unsigned e d) = d"
  by (simp_all add: ex_delivery_def ex_unsigned_def)

section \<open>The claims\<close>

subsection \<open>C1: a signature that does not match\<close>

text \<open>
  Claim C1, as amended. Take a request that passes the provider and header checks and
  whose event type is not in the ignore-list. If its \<^verbatim>\<open>x-hub-signature\<close> differs from the
  computed signature but has the same byte length, and its body parses and yields an
  events URL that converts to a string, then the handler logs the mismatch and makes the
  enqueue call, once and on the queue \<^verbatim>\<open>events\<close>, with nothing between the two: the
  mismatch changes nothing but the log. When that call is fulfilled, the handler logs and
  responds 200.
\<close>

theorem signature_mismatch_only_logged:
  assumes "provider cs = ''webhook''"
    and "headers r ''x-hub-signature'' = Some s" and "s \<noteq> []"
    and "headers r ''x-github-event'' = Some e" and "e \<noteq> []"
    and "e \<notin> set [''check_run'', ''check_suite'']"
    and "s \<noteq> computedSignature pf secret (body r)"
    and "length (Buffer_from s) = length (Buffer_from (computedSignature pf secret (body r)))"
    and "JSON_parse pf (body r) = Some event"
    and "eventsUrl_of pf event = Inr E"
    and "template pf E = Inr u"
  shows "\<exists>item rest.
           trace (post pf cs secret r) =
             log_received r # log_mismatch r (computedSignature pf secret (body r)) #
             Queue item ''events'' # rest
         \<and> enqueued (trace (post pf cs secret r)) = [(item, ''events'')]
         \<and> (queue cs item ''events'' = Fulfilled \<longrightarrow>
              rest = [Settled Fulfilled, log_queued r u,
                      Respond \<lparr>status = 200, set_headers = [], ended_with = None\<rparr>]
            \<and> ending (post pf cs secret r) = Returned)"
proof -
  from post_delivered [OF assms(1-6) assms(8-11)] assms(7)
  obtain p where run:
    "post pf cs secret r =
       enqueue cs r [log_received r, log_mismatch r (computedSignature pf secret (body r))]
         (work_item pf r (u @ ''/'' @ header_string (headers r ''x-github-delivery'')) event p) u"
    by auto
  let ?item = "work_item pf r (u @ ''/'' @ header_string (headers r ''x-github-delivery'')) event p"
  let ?rest = "case queue cs ?item ''events'' of
                 Never \<Rightarrow> []
               | Rejected reason \<Rightarrow> [Settled (Rejected reason)]
               | Fulfilled \<Rightarrow> [Settled Fulfilled, log_queued r u, Respond ok]"
  from run have "trace (post pf cs secret r) =
      log_received r # log_mismatch r (computedSignature pf secret (body r)) #
      Queue ?item ''events'' # ?rest"
    by (simp add: enqueue_shape)
  moreover from run have "enqueued (trace (post pf cs secret r)) = [(?item, ''events'')]"
    by (simp add: enqueued_enqueue log_received_def log_mismatch_def)
  moreover from run have "queue cs ?item ''events'' = Fulfilled \<longrightarrow>
      ?rest = [Settled Fulfilled, log_queued r u,
               Respond \<lparr>status = 200, set_headers = [], ended_with = None\<rparr>]
    \<and> ending (post pf cs secret r) = Returned"
    by (simp add: enqueue_shape ok_def)
  ultimately show ?thesis by blast
qed

theorem signature_mismatch_only_logged_witness:
  "provider ex_service = ''webhook''
   \<and> headers (ex_delivery ex_wrong_signature ''push'' ex_public_body) ''x-hub-signature''
       = Some ex_wrong_signature
   \<and> headers (ex_delivery ex_wrong_signature ''push'' ex_public_body) ''x-github-event'' = Some ''push''
   \<and> ex_wrong_signature \<noteq> computedSignature ex_platform ''s3cret'' ex_public_body
   \<and> length (Buffer_from ex_wrong_signature)
       = length (Buffer_from (computedSignature ex_platform ''s3cret'' ex_public_body))
   \<and> JSON_parse ex_platform ex_public_body = Some ex_public_event
   \<and> (\<exists>item.
         trace (post ex_platform ex_service ''s3cret'' (ex_delivery ex_wrong_signature ''push'' ex_public_body)) =
           [log_received (ex_delivery ex_wrong_signature ''push'' ex_public_body),
            log_mismatch (ex_delivery ex_wrong_signature ''push'' ex_public_body)
              (computedSignature ex_platform ''s3cret'' ex_public_body),
            Queue item ''events'', Settled Fulfilled,
            log_queued (ex_delivery ex_wrong_signature ''push'' ex_public_body)
              ''https://api.github.com/repos/o/r/events'',
            Respond \<lparr>status = 200, set_headers = [], ended_with = None\<rparr>]
       \<and> enqueued (trace (post ex_platform ex_service ''s3cret''
             (ex_delivery ex_wrong_signature ''push'' ex_public_body))) = [(item, ''events'')]
       \<and> ending (post ex_platform ex_service ''s3cret''
             (ex_delivery ex_wrong_signature ''push'' ex_public_body)) = Returned)"
proof -
  let ?r = "ex_delivery ex_wrong_signature ''push'' ex_public_body"
  have a: "provider ex_service = ''webhook''" by (simp add: ex_defs)
  have b: "headers ?r ''x-hub-signature'' = Some ex_wrong_signature" by simp
  have c: "ex_wrong_signature \<noteq> []" by (simp add: ex_defs)
  have d: "headers ?r ''x-github-event'' = Some ''push''" by simp
  have e: "''push'' \<noteq> []" by simp
  have f: "''push'' \<notin> set [''check_run'', ''check_suite'']" by simp
  have g: "ex_wrong_signature \<noteq> computedSignature ex_platform ''s3cret'' (body ?r)"
    by (simp add: ex_computed) (simp add: ex_defs)
  have h: "length (Buffer_from ex_wrong_signature)
             = length (Buffer_from (computedSignature ex_platform ''s3cret'' (body ?r)))"
    by (simp add: ex_computed) (simp add: handler_defs ex_defs)
  have i: "JSON_parse ex_platform (body ?r) = Some ex_public_event" by (simp add: ex_defs)
  have j: "eventsUrl_of ex_platform ex_public_event
             = Inr (Some (JStr ''https://api.github.com/repos/o/r/events''))"
    by (simp add: handler_defs ex_defs)
  have k: "template ex_platform (Some (JStr ''https://api.github.com/repos/o/r/events''))
             = Inr ''https://api.github.com/repos/o/r/events''"
    by (simp add: handler_defs)
  have l: "\<And>item. queue ex_service item ''events'' = Fulfilled" by (simp add: ex_defs)
  have m: "body ?r = ex_public_body" by simp
  from signature_mismatch_only_logged [OF a b c d e f g h i j k] l
  have "\<exists>item.
         trace (post ex_platform ex_service ''s3cret'' ?r) =
           [log_received ?r, log_mismatch ?r (computedSignature ex_platform ''s3cret'' (body ?r)),
            Queue item ''events'', Settled Fulfilled,
            log_queued ?r ''https://api.github.com/repos/o/r/events'',
            Respond \<lparr>status = 200, set_headers = [], ended_with = None\<rparr>]
       \<and> enqueued (trace (post ex_platform ex_service ''s3cret'' ?r)) = [(item, ''events'')]
       \<and> ending (post ex_platform ex_service ''s3cret'' ?r) = Returned"
    by auto
  with a b d g h i show ?thesis unfolding m by blast
qed

text \<open>
  The claim as it is written promises the enqueue call and the 200 for every such request.
  A delivery with a wrong signature of the right length and the body \<^verbatim>\<open>{}\<close> gets neither:
  after the log line of the mismatch the handler throws at line 40, since the body has no
  events URL. And where the item is enqueued but the queue rejects it, the handler ends
  with the error of the queue and no response.
\<close>

theorem signature_mismatch_counterexample:
  "provider ex_service = ''webhook''
   \<and> headers (ex_delivery ex_wrong_signature ''push'' ex_empty_body) ''x-hub-signature''
       = Some ex_wrong_signature
   \<and> headers (ex_delivery ex_wrong_signature ''push'' ex_empty_body) ''x-github-event'' = Some ''push''
   \<and> ex_wrong_signature \<noteq> computedSignature ex_platform ''s3cret'' ex_empty_body
   \<and> enqueued (trace (post ex_platform ex_service ''s3cret''
        (ex_delivery ex_wrong_signature ''push'' ex_empty_body))) = []
   \<and> responses (trace (post ex_platform ex_service ''s3cret''
        (ex_delivery ex_wrong_signature ''push'' ex_empty_body))) = []
   \<and> ending (post ex_platform ex_service ''s3cret''
        (ex_delivery ex_wrong_signature ''push'' ex_empty_body)) = Threw (CannotReadProperty ''events_url'')
   \<and> provider ex_failing_service = ''webhook''
   \<and> ex_wrong_signature \<noteq> computedSignature ex_platform ''s3cret'' ex_public_body
   \<and> map snd (enqueued (trace (post ex_platform ex_failing_service ''s3cret''
        (ex_delivery ex_wrong_signature ''push'' ex_public_body)))) = [''events'']
   \<and> responses (trace (post ex_platform ex_failing_service ''s3cret''
        (ex_delivery ex_wrong_signature ''push'' ex_public_body))) = []
   \<and> ending (post ex_platform ex_failing_service ''s3cret''
        (ex_delivery ex_wrong_signature ''push'' ex_public_body)) = Threw (QueueRejected ''queue unavailable'')"
proof -
  have "ex_wrong_signature \<noteq> computedSignature ex_platform ''s3cret'' ex_empty_body"
    and "ex_wrong_signature \<noteq> computedSignature ex_platform ''s3cret'' ex_public_body"
    by (simp_all add: ex_computed) (simp_all add: ex_defs)
  then show ?thesis
    by (simp add: ex_empty_run ex_failing_run log_received_def log_mismatch_def) (simp add: ex_defs)
qed

subsection \<open>C2: the computed signature, and a signed push for a public repository\<close>

text \<open>
  Claim C2, as amended. For every secret \<open>S\<close> and body \<open>B\<close> the computed signature is
  \<^verbatim>\<open>sha1=\<close> followed by the HMAC-SHA1 of \<open>B\<close> under \<open>S\<close> in lowercase hexadecimal digits, two
  for each byte. When the provider is \<^verbatim>\<open>webhook\<close>, a request that carries the computed
  signature and a \<^verbatim>\<open>push\<close> event whose body parses to an event with a repository object
  that has a string \<^verbatim>\<open>events_url\<close> and \<^verbatim>\<open>private\<close> false leads to exactly one enqueue call,
  on the queue \<^verbatim>\<open>events\<close>, with an item whose \<^verbatim>\<open>requiresLock\<close> is false and whose context
  is empty.
\<close>

theorem signed_public_push_enqueued_once:
  "computedSignature pf S B = ''sha1='' @ digest_hex (hmac_sha1 pf S B)
   \<and> set (digest_hex (hmac_sha1 pf S B)) \<subseteq> set ''0123456789abcdef''
   \<and> length (digest_hex (hmac_sha1 pf S B)) = 2 * length (hmac_sha1 pf S B)
   \<and> (provider cs = ''webhook''
        \<and> headers r ''x-hub-signature'' = Some (computedSignature pf secret (body r))
        \<and> headers r ''x-github-event'' = Some ''push''
        \<and> JSON_parse pf (body r) = Some event
        \<and> get_prop (Some event) ''repository'' = Inr (Some (JObj repository))
        \<and> map_of repository ''events_url'' = Some (JStr u)
        \<and> map_of repository ''private'' = Some (JBool False)
      \<longrightarrow> (\<exists>item. enqueued (trace (post pf cs secret r)) = [(item, ''events'')]
             \<and> requiresLock item = Some False \<and> item_context item = Map.empty))"
proof -
  have sig: "computedSignature pf S B = ''sha1='' @ digest_hex (hmac_sha1 pf S B)"
    by (simp add: computedSignature_def)
  have hex: "set (digest_hex (hmac_sha1 pf S B)) \<subseteq> set ''0123456789abcdef''"
    using set_digest_hex [of "hmac_sha1 pf S B"] by (simp only: hex_digits_def)
  have "\<exists>item. enqueued (trace (post pf cs secret r)) = [(item, ''events'')]
             \<and> requiresLock item = Some False \<and> item_context item = Map.empty"
    if on: "provider cs = ''webhook''"
      and s: "headers r ''x-hub-signature'' = Some (computedSignature pf secret (body r))"
      and e: "headers r ''x-github-event'' = Some ''push''"
      and parse: "JSON_parse pf (body r) = Some event"
      and rep: "get_prop (Some event) ''repository'' = Inr (Some (JObj repository))"
      and url: "map_of repository ''events_url'' = Some (JStr u)"
      and pub: "map_of repository ''private'' = Some (JBool False)"
  proof -
    have ne: "computedSignature pf secret (body r) \<noteq> []"
      by (simp add: computedSignature_def)
    from rep url have E: "eventsUrl_of pf event = Inr (Some (JStr u))"
      by (simp add: eventsUrl_of_def)
    have t: "template pf (Some (JStr u)) = Inr u"
      by (simp add: template_def)
    from rep pub have p: "private_repository pf event = Inr False"
      by (simp add: private_repository_def)
    from post_delivered [OF on s ne e _ _ refl parse E t] p
    have "post pf cs secret r =
            enqueue cs r [log_received r]
              (work_item pf r (u @ ''/'' @ header_string (headers r ''x-github-delivery'')) event False) u"
      by auto
    then show ?thesis
      by (simp add: enqueued_enqueue log_received_def requiresLock_work_item context_work_item)
  qed
  with sig hex show ?thesis by (simp add: length_digest_hex)
qed

theorem signed_public_push_enqueued_once_witness:
  "provider ex_service = ''webhook''
   \<and> headers (ex_delivery ex_public_signature ''push'' ex_public_body) ''x-hub-signature''
       = Some (computedSignature ex_platform ''s3cret'' ex_public_body)
   \<and> headers (ex_delivery ex_public_signature ''push'' ex_public_body) ''x-github-event'' = Some ''push''
   \<and> JSON_parse ex_platform ex_public_body = Some ex_public_event
   \<and> get_prop (Some ex_public_event) ''repository''
       = Inr (Some (JObj [(''events_url'', JStr ''https://api.github.com/repos/o/r/events''),
                          (''private'', JBool False)]))
   \<and> computedSignature ex_platform ''s3cret'' ex_public_body
       = ''sha1='' @ digest_hex (hmac_sha1 ex_platform ''s3cret'' ex_public_body)
   \<and> (\<exists>item. enqueued (trace (post ex_platform ex_service ''s3cret''
                  (ex_delivery ex_public_signature ''push'' ex_public_body))) = [(item, ''events'')]
         \<and> requiresLock item = Some False \<and> item_context item = Map.empty)"
proof -
  let ?r = "ex_delivery ex_public_signature ''push'' ex_public_body"
  let ?repository = "[(''events_url'', JStr ''https://api.github.com/repos/o/r/events''),
                      (''private'', JBool False)] :: (string \<times> string json) list"
  have a: "provider ex_service = ''webhook''" by (simp add: ex_defs)
  have b: "headers ?r ''x-hub-signature'' = Some (computedSignature ex_platform ''s3cret'' (body ?r))"
    by (simp add: ex_computed)
  have c: "headers ?r ''x-github-event'' = Some ''push''" by simp
  have d: "JSON_parse ex_platform (body ?r) = Some ex_public_event" by (simp add: ex_defs)
  have e: "get_prop (Some ex_public_event) ''repository'' = Inr (Some (JObj ?repository))"
    by (simp add: ex_defs)
  have f: "map_of ?repository ''events_url'' = Some (JStr ''https://api.github.com/repos/o/r/events'')"
    by simp
  have g: "map_of ?repository ''private'' = Some (JBool False)" by simp
  have m: "body ?r = ex_public_body" by simp
  from signed_public_push_enqueued_once
    [of ex_platform "''s3cret''" ex_public_body ex_service ?r "''s3cret''" ex_public_event ?repository
        "''https://api.github.com/repos/o/r/events''"]
    a b c d e f g
  show ?thesis unfolding m by blast
qed

text \<open>
  The claim as it is written does not ask for the provider to be \<^verbatim>\<open>webhook\<close>. With another
  provider the same signed push is not enqueued: the answer is the 500 of the first check.
\<close>

theorem signed_public_push_disabled_counterexample:
  "headers (ex_delivery ex_public_signature ''push'' ex_public_body) ''x-hub-signature''
       = Some (computedSignature ex_platform ''s3cret'' ex_public_body)
   \<and> headers (ex_delivery ex_public_signature ''push'' ex_public_body) ''x-github-event'' = Some ''push''
   \<and> JSON_parse ex_platform ex_public_body = Some ex_public_event
   \<and> provider ex_disabled_service = ''amqp''
   \<and> enqueued (trace (post ex_platform ex_disabled_service ''s3cret''
        (ex_delivery ex_public_signature ''push'' ex_public_body))) = []
   \<and> map status (responses (trace (post ex_platform ex_disabled_service ''s3cret''
        (ex_delivery ex_public_signature ''push'' ex_public_body)))) = [500]"
proof -
  have "provider ex_disabled_service \<noteq> ''webhook''" by (simp add: ex_defs)
  from post_disabled [OF this] show ?thesis
    by (simp add: ex_computed warn_def) (simp add: ex_defs)
qed


subsection \<open>C3: the ignored event types\<close>

text \<open>
  Claim C3, as amended. For every request whose \<^verbatim>\<open>x-github-event\<close> header is \<^verbatim>\<open>check_run\<close>
  or \<^verbatim>\<open>check_suite\<close>, no enqueue call occurs, whatever the provider is and whether the
  signature is missing, invalid or valid. When the provider is \<^verbatim>\<open>webhook\<close> and the request
  has a non-empty \<^verbatim>\<open>x-hub-signature\<close> header, the response is 200, whatever the signature
  is: it is never compared.
\<close>

theorem ignored_event_never_enqueued:
  assumes "headers r ''x-github-event'' = Some e"
    and "e \<in> set [''check_run'', ''check_suite'']"
  shows "enqueued (trace (post pf cs secret r)) = []
       \<and> (provider cs = ''webhook'' \<and> headers r ''x-hub-signature'' = Some s \<and> s \<noteq> [] \<longrightarrow>
            responses (trace (post pf cs secret r)) = [\<lparr>status = 200, set_headers = [], ended_with = None\<rparr>]
          \<and> ending (post pf cs secret r) = Returned)"
proof -
  from assms(2) have e: "e = ''check_run'' \<or> e = ''check_suite''" by simp
  have none: "enqueued (trace (post pf cs secret r)) = []"
  proof (cases "provider cs = ''webhook''")
    case False
    from post_disabled [OF this] show ?thesis by (simp add: enqueued_warn)
  next
    case on: True
    show ?thesis
    proof (cases "falsy (headers r ''x-hub-signature'') \<or> falsy (headers r ''x-github-event'')")
      case True
      from post_missing [OF on this] show ?thesis by (simp add: enqueued_fatal log_received_def)
    next
      case False
      then obtain s' where "headers r ''x-hub-signature'' = Some s'" and "s' \<noteq> []"
        by (auto simp add: falsy_def split: option.splits)
      from post_ignored [OF on this assms(1) e] show ?thesis
        by (simp add: log_received_def log_ignored_def)
    qed
  qed
  have "responses (trace (post pf cs secret r)) = [\<lparr>status = 200, set_headers = [], ended_with = None\<rparr>]
      \<and> ending (post pf cs secret r) = Returned"
    if "provider cs = ''webhook''" and "headers r ''x-hub-signature'' = Some s" and "s \<noteq> []"
    using post_ignored [OF that assms(1) e] by (simp add: log_received_def log_ignored_def ok_def)
  with none show ?thesis by blast
qed

theorem ignored_event_never_enqueued_witness:
  "headers (ex_delivery ex_wrong_signature ''check_run'' ex_public_body) ''x-github-event''
       = Some ''check_run''
   \<and> ''check_run'' \<in> set [''check_run'', ''check_suite'']
   \<and> provider ex_service = ''webhook''
   \<and> headers (ex_delivery ex_wrong_signature ''check_run'' ex_public_body) ''x-hub-signature''
       = Some ex_wrong_signature
   \<and> ex_wrong_signature \<noteq> []
   \<and> enqueued (trace (post ex_platform ex_service ''s3cret''
        (ex_delivery ex_wrong_signature ''check_run'' ex_public_body))) = []
   \<and> responses (trace (post ex_platform ex_service ''s3cret''
        (ex_delivery ex_wrong_signature ''check_run'' ex_public_body)))
       = [\<lparr>status = 200, set_headers = [], ended_with = None\<rparr>]
   \<and> ending (post ex_platform ex_service ''s3cret''
        (ex_delivery ex_wrong_signature ''check_run'' ex_public_body)) = Returned"
proof -
  let ?r = "ex_delivery ex_wrong_signature ''check_run'' ex_public_body"
  have a: "provider ex_service = ''webhook''" by (simp add: ex_defs)
  have b: "headers ?r ''x-hub-signature'' = Some ex_wrong_signature" by simp
  have c: "ex_wrong_signature \<noteq> []" by (simp add: ex_defs)
  have d: "headers ?r ''x-github-event'' = Some ''check_run''" by simp
  have e: "''check_run'' \<in> set [''check_run'', ''check_suite'']" by simp
  from ignored_event_never_enqueued
         [OF d e, of ex_platform ex_service "''s3cret''" ex_wrong_signature] a b c d e
  show ?thesis by blast
qed

text \<open>
  The claim as it is written promises the 200 also without a signature. The header check
  comes before the ignore-list: a \<^verbatim>\<open>check_run\<close> delivery without \<^verbatim>\<open>x-hub-signature\<close> is
  answered with 400. The provider check comes before both: with another provider a
  \<^verbatim>\<open>check_run\<close> delivery is answered with 500.
\<close>

theorem ignored_event_not_200_counterexample:
  "provider ex_service = ''webhook''
   \<and> headers (ex_unsigned ''check_run'' ex_public_body) ''x-github-event'' = Some ''check_run''
   \<and> headers (ex_unsigned ''check_run'' ex_public_body) ''x-hub-signature'' = None
   \<and> map status (responses (trace (post ex_platform ex_service ''s3cret''
        (ex_unsigned ''check_run'' ex_public_body)))) = [400]
   \<and> provider ex_disabled_service = ''amqp''
   \<and> headers (ex_delivery ex_public_signature ''check_run'' ex_public_body) ''x-github-event''
       = Some ''check_run''
   \<and> map status (responses (trace (post ex_platform ex_disabled_service ''s3cret''
        (ex_delivery ex_public_signature ''check_run'' ex_public_body)))) = [500]"
proof -
  have a: "provider ex_service = ''webhook''" by (simp add: ex_defs)
  have "falsy (headers (ex_unsigned ''check_run'' ex_public_body) ''x-hub-signature'')
      \<or> falsy (headers (ex_unsigned ''check_run'' ex_public_body) ''x-github-event'')"
    by (simp add: falsy_def)
  note unsigned = post_missing [OF a this]
  have b: "provider ex_disabled_service \<noteq> ''webhook''" by (simp add: ex_defs)
  have c: "provider ex_disabled_service = ''amqp''" by (simp add: ex_defs)
  from unsigned post_disabled [OF b] a c show ?thesis
    by (simp add: log_received_def fatal_def warn_def)
qed

subsection \<open>C4: webhooks not enabled\<close>

text \<open>
  Claim C4, what the code does. When the configured provider is not \<^verbatim>\<open>webhook\<close>, the
  handler responds with status 500 and content type \<^verbatim>\<open>text/plain\<close> and enqueues nothing,
  whatever the headers and the body are. The response carries no payload: \<^verbatim>\<open>warn\<close>
  stringifies the function \<^verbatim>\<open>fatal\<close>, which gives \<^verbatim>\<open>undefined\<close>, so \<^verbatim>\<open>response.end\<close>
  writes nothing, and the message \<^verbatim>\<open>Webhooks not enabled\<close> is neither sent nor logged.
\<close>

theorem disabled_500_without_payload:
  assumes "provider cs \<noteq> ''webhook''"
  shows "responses (trace (post pf cs secret r)) =
           [\<lparr>status = 500, set_headers = [(''content-type'', ''text/plain'')], ended_with = None\<rparr>]
       \<and> enqueued (trace (post pf cs secret r)) = []
       \<and> ending (post pf cs secret r) = Returned"
  using post_disabled [OF assms] by (simp add: warn_def)

theorem disabled_500_without_payload_witness:
  "provider ex_disabled_service \<noteq> ''webhook''
   \<and> responses (trace (post ex_platform ex_disabled_service ''s3cret''
        (ex_delivery ex_public_signature ''push'' ex_public_body)))
       = [\<lparr>status = 500, set_headers = [(''content-type'', ''text/plain'')], ended_with = None\<rparr>]
   \<and> enqueued (trace (post ex_platform ex_disabled_service ''s3cret''
        (ex_delivery ex_public_signature ''push'' ex_public_body))) = []
   \<and> ending (post ex_platform ex_disabled_service ''s3cret''
        (ex_delivery ex_public_signature ''push'' ex_public_body)) = Returned"
proof -
  have a: "provider ex_disabled_service \<noteq> ''webhook''" by (simp add: ex_defs)
  from disabled_500_without_payload [OF a] a show ?thesis by blast
qed


subsection \<open>C5: a missing header\<close>

text \<open>
  Claim C5. When the provider is \<^verbatim>\<open>webhook\<close>, a request without the \<^verbatim>\<open>x-hub-signature\<close>
  header or without the \<^verbatim>\<open>x-github-event\<close> header is answered with 400, the body of the
  response being the JSON text of the error message, whatever the body of the request
  is; nothing is enqueued.
\<close>

theorem missing_header_400:
  assumes "provider cs = ''webhook''"
    and "headers r ''x-hub-signature'' = None \<or> headers r ''x-github-event'' = None"
  shows "responses (trace (post pf cs secret r)) =
           [\<lparr>status = 400, set_headers = [(''content-type'', ''text/plain'')],
             ended_with = JSON_stringify (Str ''Missing signature or event type on GitHub webhook'')\<rparr>]
       \<and> enqueued (trace (post pf cs secret r)) = []
       \<and> ending (post pf cs secret r) = Returned"
proof -
  from assms(2) have "falsy (headers r ''x-hub-signature'') \<or> falsy (headers r ''x-github-event'')"
    by (auto simp add: falsy_def)
  from post_missing [OF assms(1) this] show ?thesis
    by (simp add: log_received_def fatal_def)
qed

theorem missing_header_400_witness:
  \<open>provider ex_service = ''webhook''
   \<and> headers (ex_unsigned ''push'' ex_public_body) ''x-hub-signature'' = None
   \<and> responses (trace (post ex_platform ex_service ''s3cret'' (ex_unsigned ''push'' ex_public_body)))
       = [\<lparr>status = 400, set_headers = [(''content-type'', ''text/plain'')],
           ended_with = Some ''"Missing signature or event type on GitHub webhook"''\<rparr>]
   \<and> enqueued (trace (post ex_platform ex_service ''s3cret'' (ex_unsigned ''push'' ex_public_body))) = []
   \<and> ending (post ex_platform ex_service ''s3cret'' (ex_unsigned ''push'' ex_public_body)) = Returned\<close>
proof -
  have a: "provider ex_service = ''webhook''" by (simp add: ex_defs)
  have b: "headers (ex_unsigned ''push'' ex_public_body) ''x-hub-signature'' = None" by simp
  from missing_header_400 [OF a disjI1 [OF b]] a b show ?thesis
    by (simp add: escape_def)
qed


subsection \<open>C6: the target URL\<close>

text \<open>
  Claim C6, as amended. For every request that reaches the enqueue call, the URL of the
  enqueued item is the events URL, converted to a string, followed by \<^verbatim>\<open>/\<close> and the
  \<^verbatim>\<open>x-github-delivery\<close> header (\<^verbatim>\<open>undefined\<close> when the header is absent). The events URL is
  \<^verbatim>\<open>repository.events_url\<close> when the \<^verbatim>\<open>repository\<close> of the parsed body is truthy, and
  \<^verbatim>\<open>organization.events_url\<close> otherwise.
\<close>

theorem target_url:
  assumes "Queue item name \<in> set (trace (post pf cs secret r))"
  shows "\<exists>event repository E u.
           JSON_parse pf (body r) = Some event
         \<and> get_prop (Some event) ''repository'' = Inr repository
         \<and> (if truthy (number_truthy pf) repository
            then get_prop repository ''events_url'' = Inr E
            else \<exists>organization. get_prop (Some event) ''organization'' = Inr organization
                   \<and> get_prop organization ''events_url'' = Inr E)
         \<and> template pf E = Inr u
         \<and> url item = u @ ''/'' @ header_string (headers r ''x-github-delivery'')"
  using assms
proof (cases rule: post_Queue)
  case (1 t' event E u p)
  from 1(4) obtain repository where rep: "get_prop (Some event) ''repository'' = Inr repository"
    and E: "if truthy (number_truthy pf) repository
            then get_prop repository ''events_url'' = Inr E
            else \<exists>organization. get_prop (Some event) ''organization'' = Inr organization
                   \<and> get_prop organization ''events_url'' = Inr E"
    by (auto simp add: eventsUrl_of_def split: sum.splits if_splits)
  from 1(7) have "url item = u @ ''/'' @ header_string (headers r ''x-github-delivery'')"
    by (simp add: url_work_item)
  with 1(3) rep E 1(5) show ?thesis by blast
qed

theorem target_url_witness:
  "Queue (work_item ex_platform (ex_delivery ex_public_signature ''push'' ex_public_body)
            ''https://api.github.com/repos/o/r/events/d-1'' ex_public_event False) ''events''
     \<in> set (trace (post ex_platform ex_service ''s3cret''
              (ex_delivery ex_public_signature ''push'' ex_public_body)))
   \<and> (\<exists>event repository E u.
         JSON_parse ex_platform ex_public_body = Some event
       \<and> get_prop (Some event) ''repository'' = Inr repository
       \<and> (if truthy (number_truthy ex_platform) repository
          then get_prop repository ''events_url'' = Inr E
          else \<exists>organization. get_prop (Some event) ''organization'' = Inr organization
                 \<and> get_prop organization ''events_url'' = Inr E)
       \<and> template ex_platform E = Inr u
       \<and> ''https://api.github.com/repos/o/r/events/d-1'' = u @ ''/'' @ ''d-1'')"
proof -
  let ?r = "ex_delivery ex_public_signature ''push'' ex_public_body"
  let ?item = "work_item ex_platform ?r ''https://api.github.com/repos/o/r/events/d-1'' ex_public_event False"
  have a: "Queue ?item ''events'' \<in> set (trace (post ex_platform ex_service ''s3cret'' ?r))"
    by (simp add: ex_public_run)
  from target_url [OF a] a show ?thesis
    by (simp add: url_work_item header_string_def)
qed

text \<open>
  The claim as it is written takes \<^verbatim>\<open>repository.events_url\<close> whenever the body has a
  \<^verbatim>\<open>repository\<close> key. The code tests the value, not the key: with \<^verbatim>\<open>"repository": null\<close>
  there is no \<^verbatim>\<open>repository.events_url\<close> to read, and the item is enqueued with the URL
  of the organization.
\<close>

theorem null_repository_counterexample:
  "JSON_parse ex_platform ex_org_body = Some ex_org_event
   \<and> has_key ex_org_event ''repository''
   \<and> get_prop (Some ex_org_event) ''repository'' = Inr (Some JNull)
   \<and> get_prop (Some JNull) ''events_url'' = Inl (CannotReadProperty ''events_url'')
   \<and> map (url \<circ> fst) (enqueued (trace (post ex_platform ex_service ''s3cret''
        (ex_delivery ex_org_signature ''membership'' ex_org_body))))
       = [''https://api.github.com/orgs/o/events/d-1'']"
  by (simp add: ex_org_run log_received_def log_queued_def url_work_item) (simp add: has_key_def ex_defs)


subsection \<open>C7: private repositories\<close>

text \<open>
  Claim C7. For every request that reaches the enqueue call and whose parsed body has
  \<^verbatim>\<open>repository.private\<close> equal to \<^verbatim>\<open>true\<close>, the context of the enqueued item has
  \<^verbatim>\<open>repoType\<close> set to \<^verbatim>\<open>private\<close>.
\<close>

theorem private_repository_marked:
  assumes "Queue item name \<in> set (trace (post pf cs secret r))"
    and "JSON_parse pf (body r) = Some event"
    and "get_prop (Some event) ''repository'' = Inr (Some repository)"
    and "get_prop (Some repository) ''private'' = Inr (Some (JBool True))"
  shows "item_context item ''repoType'' = Some ''private''"
  using assms(1)
proof (cases rule: post_Queue)
  case (1 t' event' E u p)
  with assms(2) have "event' = event" by simp
  moreover from assms(4) have "truthy (number_truthy pf) (Some repository)"
    by (cases repository) simp_all
  ultimately have "p" using 1(6) assms(3,4) by (simp add: private_repository_def)
  with 1(7) show ?thesis by (simp add: context_work_item)
qed

theorem private_repository_marked_witness:
  "Queue (work_item ex_platform (ex_delivery ex_private_signature ''push'' ex_private_body)
            ''https://api.github.com/repos/o/r/events/d-1'' ex_private_event True) ''events''
     \<in> set (trace (post ex_platform ex_service ''s3cret''
              (ex_delivery ex_private_signature ''push'' ex_private_body)))
   \<and> JSON_parse ex_platform ex_private_body = Some ex_private_event
   \<and> get_prop (Some ex_private_event) ''repository''
       = Inr (Some (JObj [(''events_url'', JStr ''https://api.github.com/repos/o/r/events''),
                          (''private'', JBool True)]))
   \<and> item_context
        (work_item ex_platform (ex_delivery ex_private_signature ''push'' ex_private_body)
           ''https://api.github.com/repos/o/r/events/d-1'' ex_private_event True)
        ''repoType'' = Some ''private''"
proof -
  let ?r = "ex_delivery ex_private_signature ''push'' ex_private_body"
  let ?item = "work_item ex_platform ?r ''https://api.github.com/repos/o/r/events/d-1'' ex_private_event True"
  let ?repository = "JObj [(''events_url'', JStr ''https://api.github.com/repos/o/r/events''),
                           (''private'', JBool True)] :: string json"
  have a: "Queue ?item ''events'' \<in> set (trace (post ex_platform ex_service ''s3cret'' ?r))"
    by (simp add: ex_private_run)
  have b: "JSON_parse ex_platform (body ?r) = Some ex_private_event" by (simp add: ex_defs)
  have c: "get_prop (Some ex_private_event) ''repository'' = Inr (Some ?repository)"
    by (simp add: ex_defs)
  have d: "get_prop (Some ?repository) ''private'' = Inr (Some (JBool True))" by simp
  have m: "body ?r = ex_private_body" by simp
  from private_repository_marked [OF a b c d] a b c show ?thesis unfolding m by blast
qed


subsection \<open>C8: the response waits for the queue\<close>

text \<open>
  Claim C8. In a run that makes the enqueue call, every response is written after the
  call has been made and its promise fulfilled. If the promise is rejected, the handler
  ends with that failure as its error and writes no response; if it is fulfilled, the
  handler returns after one response, the 200.
\<close>

theorem response_awaits_settlement:
  assumes "Queue item name \<in> set (trace (post pf cs secret r))"
  shows "(\<forall>pre resp rest. trace (post pf cs secret r) = pre @ Respond resp # rest \<longrightarrow>
            (\<exists>a b. pre = a @ Queue item name # b \<and> Settled Fulfilled \<in> set b))
       \<and> (\<forall>reason. queue cs item name = Rejected reason \<longrightarrow>
            ending (post pf cs secret r) = Threw (QueueRejected reason)
          \<and> responses (trace (post pf cs secret r)) = [])
       \<and> (queue cs item name = Fulfilled \<longrightarrow>
            ending (post pf cs secret r) = Returned
          \<and> responses (trace (post pf cs secret r)) = [\<lparr>status = 200, set_headers = [], ended_with = None\<rparr>])"
  using assms
proof (cases rule: post_Queue)
  case (1 t' event E u p)
  note run = 1(9) and name = 1(8)
  have first: "\<exists>a b. pre = a @ Queue item name # b \<and> Settled Fulfilled \<in> set b"
    if split: "trace (post pf cs secret r) = pre @ Respond resp # rest" for pre resp rest
  proof (cases "queue cs item ''events''")
    case Fulfilled
    with run split
    have "t' @ [Queue item ''events'', Settled Fulfilled, log_queued r u] @ [Respond ok]
            = pre @ Respond resp # rest"
      by (simp add: enqueue_shape)
    from split_at_Respond [OF 1(1) this]
    have "pre = t' @ Queue item name # [Settled Fulfilled, log_queued r u]"
      by (simp add: log_queued_def name)
    then show ?thesis by (metis list.set_intros(1))
  next
    case (Rejected reason)
    with run have "responses (trace (post pf cs secret r)) = []"
      by (simp add: responses_enqueue 1(1))
    with split Respond_in_responses [of resp "trace (post pf cs secret r)"] show ?thesis by simp
  next
    case Never
    with run have "responses (trace (post pf cs secret r)) = []"
      by (simp add: responses_enqueue 1(1))
    with split Respond_in_responses [of resp "trace (post pf cs secret r)"] show ?thesis by simp
  qed
  from run name 1(1) have
    "\<forall>reason. queue cs item name = Rejected reason \<longrightarrow>
            ending (post pf cs secret r) = Threw (QueueRejected reason)
          \<and> responses (trace (post pf cs secret r)) = []"
    and "queue cs item name = Fulfilled \<longrightarrow>
            ending (post pf cs secret r) = Returned
          \<and> responses (trace (post pf cs secret r)) = [\<lparr>status = 200, set_headers = [], ended_with = None\<rparr>]"
    by (simp_all add: enqueue_shape responses_append log_queued_def ok_def)
  with first show ?thesis by blast
qed

theorem response_awaits_settlement_witness:
  "Queue (work_item ex_platform (ex_delivery ex_public_signature ''push'' ex_public_body)
            ''https://api.github.com/repos/o/r/events/d-1'' ex_public_event False) ''events''
     \<in> set (trace (post ex_platform ex_service ''s3cret''
              (ex_delivery ex_public_signature ''push'' ex_public_body)))
   \<and> (\<exists>a b. [log_received (ex_delivery ex_public_signature ''push'' ex_public_body),
              Queue (work_item ex_platform (ex_delivery ex_public_signature ''push'' ex_public_body)
                ''https://api.github.com/repos/o/r/events/d-1'' ex_public_event False) ''events'',
              Settled Fulfilled,
              log_queued (ex_delivery ex_public_signature ''push'' ex_public_body)
                ''https://api.github.com/repos/o/r/events'']
            = a @ Queue (work_item ex_platform (ex_delivery ex_public_signature ''push'' ex_public_body)
                ''https://api.github.com/repos/o/r/events/d-1'' ex_public_event False) ''events'' # b
          \<and> Settled Fulfilled \<in> set b)
   \<and> responses (trace (post ex_platform ex_service ''s3cret''
        (ex_delivery ex_public_signature ''push'' ex_public_body)))
       = [\<lparr>status = 200, set_headers = [], ended_with = None\<rparr>]
   \<and> Queue (work_item ex_platform (ex_delivery ex_wrong_signature ''push'' ex_public_body)
            ''https://api.github.com/repos/o/r/events/d-1'' ex_public_event False) ''events''
     \<in> set (trace (post ex_platform ex_failing_service ''s3cret''
              (ex_delivery ex_wrong_signature ''push'' ex_public_body)))
   \<and> ending (post ex_platform ex_failing_service ''s3cret''
        (ex_delivery ex_wrong_signature ''push'' ex_public_body)) = Threw (QueueRejected ''queue unavailable'')
   \<and> responses (trace (post ex_platform ex_failing_service ''s3cret''
        (ex_delivery ex_wrong_signature ''push'' ex_public_body))) = []"
proof -
  let ?r = "ex_delivery ex_public_signature ''push'' ex_public_body"
  let ?item = "work_item ex_platform ?r ''https://api.github.com/repos/o/r/events/d-1'' ex_public_event False"
  let ?pre = "[log_received ?r, Queue ?item ''events'', Settled Fulfilled,
               log_queued ?r ''https://api.github.com/repos/o/r/events''] :: string effect list"
  let ?r' = "ex_delivery ex_wrong_signature ''push'' ex_public_body"
  let ?item' = "work_item ex_platform ?r' ''https://api.github.com/repos/o/r/events/d-1'' ex_public_event False"
  have a: "Queue ?item ''events'' \<in> set (trace (post ex_platform ex_service ''s3cret'' ?r))"
    by (simp add: ex_public_run)
  have b: "trace (post ex_platform ex_service ''s3cret'' ?r) = ?pre @ Respond ok # []"
    by (simp add: ex_public_run)
  have c: "queue ex_service ?item ''events'' = Fulfilled" by (simp add: ex_defs)
  have a': "Queue ?item' ''events'' \<in> set (trace (post ex_platform ex_failing_service ''s3cret'' ?r'))"
    by (simp add: ex_failing_run)
  have c': "queue ex_failing_service ?item' ''events'' = Rejected ''queue unavailable''"
    by (simp add: ex_defs)
  note fulfilled = response_awaits_settlement [OF a]
  note failing = response_awaits_settlement [OF a']
  from fulfilled b have "\<exists>a b. ?pre = a @ Queue ?item ''events'' # b \<and> Settled Fulfilled \<in> set b"
    by blast
  moreover from fulfilled c
  have "responses (trace (post ex_platform ex_service ''s3cret'' ?r))
          = [\<lparr>status = 200, set_headers = [], ended_with = None\<rparr>]"
    by blast
  moreover from failing c'
  have "ending (post ex_platform ex_failing_service ''s3cret'' ?r') = Threw (QueueRejected ''queue unavailable'')
      \<and> responses (trace (post ex_platform ex_failing_service ''s3cret'' ?r')) = []"
    by blast
  ultimately show ?thesis using a a' by blast
qed


subsection \<open>C9: a signature of another length\<close>

text \<open>
  Claim C9. For every request that reaches the signature comparison with an
  \<^verbatim>\<open>x-hub-signature\<close> whose byte length differs from that of the computed signature, the
  comparison throws: the handler ends with that exception, nothing is enqueued and no
  response is written. The computed signature has 5 bytes and two for each byte of the
  digest, 45 for the 20 bytes of SHA-1 (lemma \<open>length_Buffer_computedSignature\<close>).
\<close>

theorem unequal_length_throws:
  assumes "provider cs = ''webhook''"
    and "headers r ''x-hub-signature'' = Some s" and "s \<noteq> []"
    and "headers r ''x-github-event'' = Some e" and "e \<noteq> []"
    and "e \<notin> set [''check_run'', ''check_suite'']"
    and "length (Buffer_from s) \<noteq> length (Buffer_from (computedSignature pf secret (body r)))"
  shows "ending (post pf cs secret r) = Threw BufferLengthMismatch
       \<and> enqueued (trace (post pf cs secret r)) = []
       \<and> responses (trace (post pf cs secret r)) = []"
proof -
  from assms(2,7)
  have "length (Buffer_from (header_string (headers r ''x-hub-signature'')))
          \<noteq> length (Buffer_from (computedSignature pf secret (body r)))"
    by (simp add: header_string_def)
  from post_process [OF assms(1-6)] process_length [OF this]
  show ?thesis by (simp add: log_received_def)
qed

theorem unequal_length_throws_witness:
  "provider ex_service = ''webhook''
   \<and> headers (ex_delivery ''sha1=abc'' ''push'' ex_public_body) ''x-hub-signature'' = Some ''sha1=abc''
   \<and> headers (ex_delivery ''sha1=abc'' ''push'' ex_public_body) ''x-github-event'' = Some ''push''
   \<and> length (Buffer_from ''sha1=abc'') = 8
   \<and> length (Buffer_from (computedSignature ex_platform ''s3cret'' ex_public_body)) = 45
   \<and> ending (post ex_platform ex_service ''s3cret'' (ex_delivery ''sha1=abc'' ''push'' ex_public_body))
       = Threw BufferLengthMismatch
   \<and> enqueued (trace (post ex_platform ex_service ''s3cret''
        (ex_delivery ''sha1=abc'' ''push'' ex_public_body))) = []
   \<and> responses (trace (post ex_platform ex_service ''s3cret''
        (ex_delivery ''sha1=abc'' ''push'' ex_public_body))) = []"
proof -
  let ?r = "ex_delivery ''sha1=abc'' ''push'' ex_public_body"
  have a: "provider ex_service = ''webhook''" by (simp add: ex_defs)
  have b: "headers ?r ''x-hub-signature'' = Some ''sha1=abc''" by simp
  have c: "''sha1=abc'' \<noteq> []" by simp
  have d: "headers ?r ''x-github-event'' = Some ''push''" by simp
  have e: "''push'' \<noteq> []" by simp
  have f: "''push'' \<notin> set [''check_run'', ''check_suite'']" by simp
  have g: "length (Buffer_from ''sha1=abc'') = 8" by (simp add: Buffer_from_def utf8_def)
  have h: "length (Buffer_from (computedSignature ex_platform ''s3cret'' ex_public_body)) = 45"
    by (simp add: length_Buffer_computedSignature) (simp add: ex_defs)
  from g h have i: "length (Buffer_from ''sha1=abc'')
      \<noteq> length (Buffer_from (computedSignature ex_platform ''s3cret'' (body ?r)))"
    by simp
  from unequal_length_throws [OF a b c d e f i] a b d g h show ?thesis by blast
qed


subsection \<open>C10: neither a repository nor an organization\<close>

text \<open>
  Claim C10, as amended. For every request that passes the provider, header and
  ignore-list checks and whose parsed body has neither a \<^verbatim>\<open>repository\<close> key nor an
  \<^verbatim>\<open>organization\<close> key, the handler ends with an exception, nothing is enqueued and no
  response is written. The exception is thrown while reading \<^verbatim>\<open>organization.events_url\<close>
  when the signature has the byte length of the computed one and the body is not
  \<^verbatim>\<open>null\<close>. With another byte length the signature comparison throws first (C9), and
  with the body \<^verbatim>\<open>null\<close> the reading of \<^verbatim>\<open>event.repository\<close> does.
\<close>

theorem neither_key_throws:
  assumes "provider cs = ''webhook''"
    and "headers r ''x-hub-signature'' = Some s" and "s \<noteq> []"
    and "headers r ''x-github-event'' = Some e" and "e \<noteq> []"
    and "e \<notin> set [''check_run'', ''check_suite'']"
    and "JSON_parse pf (body r) = Some event"
    and "\<not> has_key event ''repository''" and "\<not> has_key event ''organization''"
  shows "ending (post pf cs secret r) =
           Threw (if length (Buffer_from s) \<noteq> length (Buffer_from (computedSignature pf secret (body r)))
                  then BufferLengthMismatch
                  else if event = JNull then CannotReadProperty ''repository''
                  else CannotReadProperty ''events_url'')
       \<and> enqueued (trace (post pf cs secret r)) = []
       \<and> responses (trace (post pf cs secret r)) = []"
proof (cases "length (Buffer_from s) = length (Buffer_from (computedSignature pf secret (body r)))")
  case False
  from post_process [OF assms(1-6)] False assms(2) show ?thesis
    by (simp add: process_length header_string_def log_received_def)
next
  case True
  have "eventsUrl_of pf event =
          Inl (if event = JNull then CannotReadProperty ''repository'' else CannotReadProperty ''events_url'')"
    using no_key [OF assms(8)] no_key [OF assms(9)] by (simp add: eventsUrl_of_def)
  with post_process [OF assms(1-6)] True assms(2,7) show ?thesis
    by (simp add: process_def timingSafeEqual_def header_string_def Let_def log_received_def
        log_mismatch_def)
qed

theorem neither_key_throws_witness:
  "provider ex_service = ''webhook''
   \<and> headers (ex_delivery ex_empty_signature ''push'' ex_empty_body) ''x-hub-signature''
       = Some ex_empty_signature
   \<and> headers (ex_delivery ex_empty_signature ''push'' ex_empty_body) ''x-github-event'' = Some ''push''
   \<and> JSON_parse ex_platform ex_empty_body = Some (JObj [])
   \<and> \<not> has_key (JObj [] :: string json) ''repository''
   \<and> \<not> has_key (JObj [] :: string json) ''organization''
   \<and> ending (post ex_platform ex_service ''s3cret'' (ex_delivery ex_empty_signature ''push'' ex_empty_body))
       = Threw (CannotReadProperty ''events_url'')
   \<and> enqueued (trace (post ex_platform ex_service ''s3cret''
        (ex_delivery ex_empty_signature ''push'' ex_empty_body))) = []
   \<and> responses (trace (post ex_platform ex_service ''s3cret''
        (ex_delivery ex_empty_signature ''push'' ex_empty_body))) = []"
proof -
  let ?r = "ex_delivery ex_empty_signature ''push'' ex_empty_body"
  have a: "provider ex_service = ''webhook''" by (simp add: ex_defs)
  have b: "headers ?r ''x-hub-signature'' = Some ex_empty_signature" by simp
  have c: "ex_empty_signature \<noteq> []" by (simp add: ex_defs)
  have d: "headers ?r ''x-github-event'' = Some ''push''" by simp
  have e: "''push'' \<noteq> []" by simp
  have f: "''push'' \<notin> set [''check_run'', ''check_suite'']" by simp
  have g: "JSON_parse ex_platform (body ?r) = Some (JObj [])" by (simp add: ex_defs)
  have h: "\<not> has_key (JObj [] :: string json) ''repository''" by (simp add: has_key_def)
  have i: "\<not> has_key (JObj [] :: string json) ''organization''" by (simp add: has_key_def)
  have m: "body ?r = ex_empty_body" by simp
  have n: "computedSignature ex_platform ''s3cret'' (body ?r) = ex_empty_signature"
    by (simp add: ex_computed)
  from neither_key_throws [where secret = "''s3cret''", OF a b c d e f g h i] a b d g h i show ?thesis
    unfolding n unfolding m by simp
qed

text \<open>
  The claim as it is written places the exception at \<^verbatim>\<open>organization.events_url\<close> for every
  such request. With the signature \<^verbatim>\<open>sha1=abc\<close> and the body \<^verbatim>\<open>{}\<close> the handler throws at
  the comparison of line 35, and with the body \<^verbatim>\<open>null\<close>, correctly signed, it throws at
  \<^verbatim>\<open>event.repository\<close>.
\<close>

theorem neither_key_other_exception_counterexample:
  "provider ex_service = ''webhook''
   \<and> headers (ex_delivery ''sha1=abc'' ''push'' ex_empty_body) ''x-hub-signature'' = Some ''sha1=abc''
   \<and> headers (ex_delivery ''sha1=abc'' ''push'' ex_empty_body) ''x-github-event'' = Some ''push''
   \<and> JSON_parse ex_platform ex_empty_body = Some (JObj [])
   \<and> \<not> has_key (JObj [] :: string json) ''repository''
   \<and> \<not> has_key (JObj [] :: string json) ''organization''
   \<and> ending (post ex_platform ex_service ''s3cret'' (ex_delivery ''sha1=abc'' ''push'' ex_empty_body))
       = Threw BufferLengthMismatch
   \<and> headers (ex_delivery ex_null_signature ''push'' ex_null_body) ''x-hub-signature''
       = Some (computedSignature ex_platform ''s3cret'' ex_null_body)
   \<and> headers (ex_delivery ex_null_signature ''push'' ex_null_body) ''x-github-event'' = Some ''push''
   \<and> JSON_parse ex_platform ex_null_body = Some JNull
   \<and> \<not> has_key (JNull :: string json) ''repository''
   \<and> \<not> has_key (JNull :: string json) ''organization''
   \<and> ending (post ex_platform ex_service ''s3cret'' (ex_delivery ex_null_signature ''push'' ex_null_body))
       = Threw (CannotReadProperty ''repository'')"
  by (simp add: ex_short_run ex_null_run ex_computed has_key_def) (simp add: ex_defs)

end
